theory Spec2Isabelle
  imports Main "HOL-Library.Word" "HOL-Library.Sublist"
begin

unbundle bit_operations_syntax

section \<open>The ENI plugin engine (plugins/eni/engine/engine.go)\<close>

text \<open>
  The engine talks to three collaborators through interfaces: the instance metadata
  client, the netlink wrapper and the network-namespace wrapper. Their answers can
  change from one call to the next (that is why the engine has retry loops), so every
  call is recorded as an event of a trace, and a collaborator answers as a function of
  the trace of the calls made before. Every engine operation takes the trace so far
  and returns its result together with the extended trace. Sleeping is an event too.
  Log output (seelog) is not modelled.
\<close>

subsection \<open>Strings (Go standard library)\<close>

text \<open>
  Go strings are byte sequences, as \<^typ>\<open>string\<close> is. \<open>strings.Split(s, sep)\<close> with
  a one-byte separator cuts \<open>s\<close> at every occurrence of the separator and keeps the
  empty pieces; \<open>split_from\<close> carries the piece being read.
\<close>

fun split_from :: "char \<Rightarrow> string \<Rightarrow> string \<Rightarrow> string list" where
  "split_from sep cur [] = [cur]"
| "split_from sep cur (c # cs) =
     (if c = sep then cur # split_from sep [] cs else split_from sep (cur @ [c]) cs)"

definition strings_Split :: "string \<Rightarrow> char \<Rightarrow> string list" where
  "strings_Split s sep = split_from sep [] s"

text \<open>The digits shared by the decimal and hexadecimal printers (\<open>hexDigit\<close> in package net).\<close>

definition hexDigit :: string where
  "hexDigit = ''0123456789abcdef''"

text \<open>\<open>fmt.Sprintf("%d", n)\<close> and net's \<open>uitoa\<close> on a non-negative number.\<close>

fun uitoa :: "nat \<Rightarrow> string" where
  "uitoa n = (if n < 10 then [hexDigit ! n] else uitoa (n div 10) @ [hexDigit ! (n mod 10)])"

declare uitoa.simps [simp del]


subsection \<open>Errors\<close>

text \<open>
  \<open>External\<close> is an error value handed over by a collaborator, \<open>Wrap\<close> is
  \<open>errors.Wrap\<close>/\<open>errors.Wrapf\<close> with the formatted message, \<open>Errorf\<close> is
  \<open>errors.Errorf\<close>, \<open>ParseError\<close> is \<open>net.ParseError\<close> with its type and text, and
  \<open>Panic\<close> is a run-time panic.
\<close>

datatype error =
    External string
  | ParseError string string
  | Errorf string
  | Wrap error string
  | UnmappedMACAddressError string string string
  | Panic string

text \<open>
  Modelled from the spec: \<open>NewUnmappedMACAddressError\<close> is declared in the engine
  package outside engine.go; the spec describes its result as the error
  \<open>UnmappedMACAddress\<close> carrying the ENI id. The constructor keeps the three arguments
  (operation, origin, message) the engine passes.
\<close>

definition NewUnmappedMACAddressError :: "string \<Rightarrow> string \<Rightarrow> string \<Rightarrow> error" where
  "NewUnmappedMACAddressError operation origin message =
     UnmappedMACAddressError operation origin message"

subsection \<open>Bytes and addresses\<close>

type_synonym byte = "8 word"

text \<open>\<open>net.IP\<close> and \<open>net.IPMask\<close> are byte slices; the nil slice and the empty slice are \<open>[]\<close>.\<close>

type_synonym IP = "byte list"
type_synonym IPMask = "byte list"

record IPNet =
  IPNet_IP :: IP
  IPNet_Mask :: IPMask

subsection \<open>Addresses (Go standard library, package net)\<close>

text \<open>
  \<open>IP.String\<close> prints the empty address as \<open><nil>\<close>, an IPv4 address in dotted
  decimals, an address of a length other than 4 or 16 as \<open>?\<close> and its hexadecimal
  digits, and an IPv6 address in groups with the longest run of zero groups (two or
  more) replaced by \<open>::\<close>. In \<open>printGroups\<close> the loop variable jumps to \<open>e1\<close> at the
  start of the run; the search for the run never yields \<open>e1 < e0\<close>, and the model
  stops printing there.
\<close>

definition IPv4len :: nat where "IPv4len = 4"
definition IPv6len :: nat where "IPv6len = 16"


definition isZeros :: "byte list \<Rightarrow> bool" where
  "isZeros p = list_all (\<lambda>b. b = 0) p"

definition To4 :: "IP \<Rightarrow> IP" where
  "To4 ip =
     (if length ip = IPv4len then ip
      else if length ip = IPv6len \<and> isZeros (take 10 ip) \<and> ip ! 10 = 0xff \<and> ip ! 11 = 0xff
        then drop 12 ip
      else [])"

definition hexString :: "byte list \<Rightarrow> string" where
  "hexString b = concat (map (\<lambda>tn. [hexDigit ! unat (drop_bit 4 tn), hexDigit ! unat (tn AND 0xf)]) b)"

definition appendHex :: "string \<Rightarrow> 32 word \<Rightarrow> string" where
  "appendHex dst i =
     (if i = 0 then dst @ [CHR ''0'']
      else fold (\<lambda>j b. if drop_bit (j * 4) i > 0 then b @ [hexDigit ! unat (drop_bit (j * 4) i AND 0xf)] else b)
             [7, 6, 5, 4, 3, 2, 1, 0] dst)"

function zeroRunEnd :: "IP \<Rightarrow> nat \<Rightarrow> nat" where
  "zeroRunEnd p j =
     (if j < IPv6len \<and> p ! j = 0 \<and> p ! (j + 1) = 0 then zeroRunEnd p (j + 2) else j)"
  by pat_completeness auto
termination
  by (relation "measure (\<lambda>(p, j). IPv6len - j)") auto

declare zeroRunEnd.simps [simp del]

function longestZeroRun :: "IP \<Rightarrow> nat \<Rightarrow> int \<Rightarrow> int \<Rightarrow> int \<times> int" where
  "longestZeroRun p i e0 e1 =
     (if i < IPv6len then
        (if zeroRunEnd p i > i \<and> int (zeroRunEnd p i) - int i > e1 - e0
         then longestZeroRun p (zeroRunEnd p i + 2) (int i) (int (zeroRunEnd p i))
         else longestZeroRun p (i + 2) e0 e1)
      else (e0, e1))"
  by pat_completeness auto
termination
  by (relation "measure (\<lambda>(p, i, e0, e1). IPv6len - i)") auto

declare longestZeroRun.simps [simp del]

definition chunk16 :: "IP \<Rightarrow> nat \<Rightarrow> 32 word" where
  "chunk16 p i = push_bit 8 (ucast (p ! i)) OR ucast (p ! (i + 1))"

function printGroups :: "IP \<Rightarrow> int \<Rightarrow> int \<Rightarrow> nat \<Rightarrow> string \<Rightarrow> string" where
  "printGroups p e0 e1 i b =
     (if i < IPv6len then
        (if int i = e0 then
           (if e1 \<ge> int IPv6len \<or> e1 < int i then b @ ''::''
            else printGroups p e0 e1 (nat e1 + 2) (appendHex (b @ ''::'') (chunk16 p (nat e1))))
         else if i > 0 then printGroups p e0 e1 (i + 2) (appendHex (b @ '':'') (chunk16 p i))
         else printGroups p e0 e1 (i + 2) (appendHex b (chunk16 p i)))
      else b)"
  by pat_completeness auto
termination
  by (relation "measure (\<lambda>(p, e0, e1, i, b). IPv6len - i)") auto

declare printGroups.simps [simp del]

definition IP_String :: "IP \<Rightarrow> string" where
  "IP_String ip =
     (if length ip = 0 then ''<nil>''
      else if length (To4 ip) = IPv4len then
        uitoa (unat (To4 ip ! 0)) @ ''.'' @ uitoa (unat (To4 ip ! 1)) @ ''.'' @
        uitoa (unat (To4 ip ! 2)) @ ''.'' @ uitoa (unat (To4 ip ! 3))
      else if length ip \<noteq> IPv6len then ''?'' @ hexString ip
      else
        (case longestZeroRun ip 0 (- 1) (- 1) of (e0, e1) \<Rightarrow>
           if e1 - e0 \<le> 2 then printGroups ip (- 1) (- 1) 0 []
           else printGroups ip e0 e1 0 []))"









text \<open>
  Parsing addresses (package net/netip, which \<open>net.ParseCIDR\<close> calls). A parsed address
  is an IPv4 address of four bytes or an IPv6 address of sixteen bytes with a zone; a
  parse error is \<open>None\<close>.

  \<open>parseIPv4_from\<close> is the loop of \<open>parseIPv4\<close> over the characters: \<open>prev\<close> is the
  character before the current one (none at the start), \<open>val\<close> the value of the octet
  being read, \<open>pos\<close> the number of octets stored and \<open>digLen\<close> the number of digits of
  the current octet. An octet with a leading zero, an octet above 255, an empty octet,
  a fifth octet and any other character are errors.
\<close>

datatype Addr = Addr4 "byte list" | Addr6 "byte list" string

fun Addr_BitLen :: "Addr \<Rightarrow> int" where
  "Addr_BitLen (Addr4 b) = 32"
| "Addr_BitLen (Addr6 b zone) = 128"

















function leadingOnes :: "byte \<Rightarrow> int \<Rightarrow> byte \<times> int" where
  "leadingOnes v n = (if v AND 0x80 \<noteq> 0 then leadingOnes (push_bit 1 v) (n + 1) else (v, n))"
  by pat_completeness auto
termination
proof (relation "measure (\<lambda>(v, n). unat v)")
  show "wf (measure (\<lambda>(v :: byte, n :: int). unat v))"
    by simp
next
  fix v :: byte and n :: int
  assume top: "v AND 0x80 \<noteq> 0"
  have e: "(0x80 :: byte) = 2 ^ 7" by simp
  have "v AND 2 ^ 7 \<noteq> 0" using top unfolding e .
  then have "bit v 7" using and_exp_eq_0_iff_not_bit [of v 7] by blast
  then have "bit (unat v) 7" by (simp add: bit_unsigned_iff)
  then have "odd (unat v div 2 ^ 7)" using bit_iff_odd [of "unat v" 7] by blast
  then have "0 < unat v div 2 ^ 7" by (rule odd_pos)
  then have ge: "128 \<le> unat v" by (simp add: div_greater_zero_iff)
  have lt: "unat v < 256" using unsigned_less [of v, where ?'a = nat] by simp
  have "unat (push_bit 1 v) = (2 * unat v) mod 256"
    unfolding unsigned_push_bit_eq by (simp add: take_bit_eq_mod mult.commute)
  also have "\<dots> < unat v" using ge lt by (simp add: mod_if) arith
  finally show "((push_bit 1 v, n + 1), (v, n)) \<in> measure (\<lambda>(v, n). unat v)"
    by simp
qed

declare leadingOnes.simps [simp del]

fun simpleMaskLength_from :: "byte list \<Rightarrow> int \<Rightarrow> int" where
  "simpleMaskLength_from [] n = n"
| "simpleMaskLength_from (v # rest) n =
     (if v = 0xff then simpleMaskLength_from rest (n + 8)
      else
        (case leadingOnes v n of (v', n') \<Rightarrow>
           if v' \<noteq> 0 then - 1
           else if list_all (\<lambda>b. b = 0) rest then n'
           else - 1))"

definition simpleMaskLength :: "IPMask \<Rightarrow> int" where
  "simpleMaskLength msk = simpleMaskLength_from msk 0"





definition networkNumberAndMask :: "IPNet \<Rightarrow> IP \<times> IPMask" where
  "networkNumberAndMask n =
     (if To4 (IPNet_IP n) = [] \<and> length (IPNet_IP n) \<noteq> IPv6len then ([], [])
      else
        (let ip = (if To4 (IPNet_IP n) = [] then IPNet_IP n else To4 (IPNet_IP n))
         in if length (IPNet_Mask n) = IPv4len then
              (if length ip \<noteq> IPv4len then ([], []) else (ip, IPNet_Mask n))
            else if length (IPNet_Mask n) = IPv6len then
              (if length ip = IPv4len then (ip, drop 12 (IPNet_Mask n)) else (ip, IPNet_Mask n))
            else ([], [])))"

definition IPMask_String :: "IPMask \<Rightarrow> string" where
  "IPMask_String m = (if length m = 0 then ''<nil>'' else hexString m)"

definition IPNet_String :: "IPNet \<Rightarrow> string" where
  "IPNet_String n =
     (case networkNumberAndMask n of (nn, m) \<Rightarrow>
        if nn = [] \<or> m = [] then ''<nil>''
        else if simpleMaskLength m = - 1 then IP_String nn @ ''/'' @ IPMask_String m
        else IP_String nn @ ''/'' @ uitoa (nat (simpleMaskLength m)))"

subsection \<open>Data of the collaborators\<close>

text \<open>\<open>netlink.Route\<close>: \<open>Dst\<close> is a pointer (\<open>None\<close> is nil), \<open>Src\<close> and \<open>Gw\<close> are \<open>net.IP\<close>.\<close>

record Route =
  Dst :: "IPNet option"
  Src :: IP
  Gw :: IP

text \<open>A \<open>netlink.Link\<close>, by its index and name.\<close>

datatype link = Link (LinkIndex: int) (LinkName: string)

text \<open>A namespace handle (\<open>ns.NetNS\<close>); \<open>Fd()\<close> is a \<open>uintptr\<close>.\<close>

datatype netns = NetNS (Fd: "64 word") (NsPath: string)

text \<open>\<open>skel.CmdArgs\<close>, the two fields the engine reads.\<close>

record CmdArgs =
  Netns :: string
  IfName :: string

text \<open>
  Modelled from the spec: the struct \<open>setupNamespaceClosureContext\<close> is declared in the
  engine package outside engine.go. The spec's NamespaceConfiguration lists its payload:
  target interface name, device name, MAC address, IPv4 address, IPv6 address, IPv4
  gateway, IPv6 gateway and the flag that blocks the metadata service.
\<close>

record setupNamespaceClosureContext =
  ctx_ifName :: string
  ctx_deviceName :: string
  ctx_macAddress :: string
  ctx_ipv4Address :: string
  ctx_ipv6Address :: string
  ctx_ipv4Gateway :: string
  ctx_ipv6Gateway :: string
  ctx_blockIMDS :: bool

subsection \<open>Events and the engine\<close>

datatype event =
    EvGetMetadata string
  | EvSleep int
  | EvLinkByName string
  | EvRouteList link int
  | EvGetNS string
  | EvLinkSetNsFd link int
  | EvNewSetupNamespaceClosureContext string string string string string string string bool
  | EvWithNetNSPath string setupNamespaceClosureContext

type_synonym trace = "event list"

text \<open>
  The collaborators, as the interfaces the engine holds: each method answers from the
  trace of the calls made so far. \<open>LinkSetNsFd\<close> and \<open>WithNetNSPath\<close> return an
  error or nil.
\<close>

record EC2Metadata =
  GetMetadata :: "trace \<Rightarrow> string \<Rightarrow> error + string"

record NetLink =
  LinkByName :: "trace \<Rightarrow> string \<Rightarrow> error + link"
  RouteList :: "trace \<Rightarrow> link \<Rightarrow> int \<Rightarrow> error + Route list"
  LinkSetNsFd :: "trace \<Rightarrow> link \<Rightarrow> int \<Rightarrow> error option"

record NS =
  GetNS :: "trace \<Rightarrow> string \<Rightarrow> error + netns"
  WithNetNSPath :: "trace \<Rightarrow> string \<Rightarrow> setupNamespaceClosureContext \<Rightarrow> error option"

text \<open>The struct \<open>engine\<close>. A \<open>time.Duration\<close> is a number of nanoseconds.\<close>

record engine =
  metadata :: EC2Metadata
  netLink :: NetLink
  ns :: NS
  ipv6GatewayTickDuration :: int
  maxTicksForRetrievingIPV6Gateway :: int
  metadataMaxRetryCount :: int
  metadataDurationBetweenRetries :: int

subsection \<open>Constants\<close>

definition metadataNetworkInterfacesPath :: string where
  "metadataNetworkInterfacesPath = ''network/interfaces/macs/''"

definition metadataNetworkInterfaceIDPathSuffix :: string where
  "metadataNetworkInterfaceIDPathSuffix = ''interface-id''"

definition metadataNetworkInterfaceIPV4AddressesSuffix :: string where
  "metadataNetworkInterfaceIPV4AddressesSuffix = ''/local-ipv4s''"

definition metadataNetworkInterfaceIPV6AddressesSuffix :: string where
  "metadataNetworkInterfaceIPV6AddressesSuffix = ''/ipv6s''"


definition time_Second :: int where
  "time_Second = 1000000000"

definition zeroLengthIPString :: string where
  "zeroLengthIPString = ''<nil>''"

definition FAMILY_V6 :: int where
  "FAMILY_V6 = 10"

definition ipv6GatewayTickDuration_const :: int where
  "ipv6GatewayTickDuration_const = 1 * time_Second"

definition maxTicksForRetrievingIPV6Gateway_const :: int where
  "maxTicksForRetrievingIPV6Gateway_const = 10"

definition instanceMetadataMaxRetryCount :: int where
  "instanceMetadataMaxRetryCount = 20"

definition instanceMetadataDurationBetweenRetries :: int where
  "instanceMetadataDurationBetweenRetries = 1 * time_Second"

definition create :: "EC2Metadata \<Rightarrow> NetLink \<Rightarrow> NS \<Rightarrow> engine" where
  "create md nl nsw =
     \<lparr> metadata = md, netLink = nl, ns = nsw,
       ipv6GatewayTickDuration = ipv6GatewayTickDuration_const,
       maxTicksForRetrievingIPV6Gateway = maxTicksForRetrievingIPV6Gateway_const,
       metadataMaxRetryCount = instanceMetadataMaxRetryCount,
       metadataDurationBetweenRetries = instanceMetadataDurationBetweenRetries \<rparr>"

subsection \<open>GetAllMACAddresses and GetMACAddressOfENI\<close>

definition GetAllMACAddresses :: "engine \<Rightarrow> trace \<Rightarrow> (error + string list) \<times> trace" where
  "GetAllMACAddresses e tr =
     (case GetMetadata (metadata e) tr metadataNetworkInterfacesPath of
        Inl err \<Rightarrow>
          (Inl (Wrap err
             ''getAllMACAddresses engine: unable to get all mac addresses on the instance from instance metadata''),
           tr @ [EvGetMetadata metadataNetworkInterfacesPath])
      | Inr macs \<Rightarrow>
          (Inr (strings_Split macs CHR 0x0A), tr @ [EvGetMetadata metadataNetworkInterfacesPath]))"

definition interfaceIDPath :: "string \<Rightarrow> string" where
  "interfaceIDPath macAddress =
     metadataNetworkInterfacesPath @ macAddress @ metadataNetworkInterfaceIDPathSuffix"

text \<open>
  The \<open>range\<close> loop of \<open>GetMACAddressOfENI\<close>, by recursion on the candidates. Indexing
  the split at 0 panics in Go when the slice is empty; the branch is kept.
\<close>

fun GetMACAddressOfENI :: "engine \<Rightarrow> string list \<Rightarrow> string \<Rightarrow> trace \<Rightarrow> (error + string) \<times> trace" where
  "GetMACAddressOfENI e [] eniID tr =
     (Inl (NewUnmappedMACAddressError ''getMACAddressOfENI'' ''engine''
             (''mac address of ENI '' @ [CHR 0x27] @ eniID @ [CHR 0x27] @ '' not found'')), tr)"
| "GetMACAddressOfENI e (macAddress # rest) eniID tr =
     (case GetMetadata (metadata e) tr (interfaceIDPath macAddress) of
        Inl err \<Rightarrow> GetMACAddressOfENI e rest eniID (tr @ [EvGetMetadata (interfaceIDPath macAddress)])
      | Inr interfaceID \<Rightarrow>
          if interfaceID = eniID then
            (case strings_Split macAddress CHR ''/'' of
               [] \<Rightarrow> (Inl (Panic ''index out of range''), tr @ [EvGetMetadata (interfaceIDPath macAddress)])
             | piece # _ \<Rightarrow> (Inr piece, tr @ [EvGetMetadata (interfaceIDPath macAddress)]))
          else GetMACAddressOfENI e rest eniID (tr @ [EvGetMetadata (interfaceIDPath macAddress)]))"

subsection \<open>GetIPV6PrefixLength\<close>




subsection \<open>GetIPV6Gateway\<close>

text \<open>
  The \<open>range\<close> loop over the listed routes (lines 232 to 245). The first conjunct of the
  test is a short-circuit disjunction: the string form of \<open>Dst\<close> is only asked for when
  \<open>Dst\<close> is not nil. The result is the triple (gateway, ok, err) of the Go function.
\<close>

fun scanRoutes :: "Route list \<Rightarrow> string \<times> bool \<times> error option" where
  "scanRoutes [] = ([], False, None)"
| "scanRoutes (route # routes) =
     (if Dst route \<noteq> None then scanRoutes routes
      else if (case Dst route of None \<Rightarrow> True | Some d \<Rightarrow> IPNet_String d = zeroLengthIPString)
              \<and> IP_String (Src route) = zeroLengthIPString
              \<and> IP_String (Gw route) \<noteq> zeroLengthIPString
        then (IP_String (Gw route), True, None)
      else scanRoutes routes)"

definition getIPV6GatewayIPFromRoutesOnce ::
  "engine \<Rightarrow> link \<Rightarrow> string \<Rightarrow> trace \<Rightarrow> (string \<times> bool \<times> error option) \<times> trace" where
  "getIPV6GatewayIPFromRoutesOnce e l deviceName tr =
     (case RouteList (netLink e) tr l FAMILY_V6 of
        Inl err \<Rightarrow>
          (([], False,
            Some (Wrap err (''getIPV6Gateway engine: unable to get ipv6 routes for device '' @ [CHR 0x27]
                             @ deviceName @ [CHR 0x27]))),
           tr @ [EvRouteList l FAMILY_V6])
      | Inr routes \<Rightarrow> (scanRoutes routes, tr @ [EvRouteList l FAMILY_V6]))"

text \<open>
  The \<open>for\<close> loop of \<open>getIPV6GatewayIPFromRoutes\<close>, from the tick \<open>numTicks\<close> on. The
  counter stays below \<open>maxTicks\<close>, so it does not overflow.
\<close>

function getIPV6GatewayIPFromRoutes_from ::
  "engine \<Rightarrow> link \<Rightarrow> string \<Rightarrow> int \<Rightarrow> int \<Rightarrow> int \<Rightarrow> trace \<Rightarrow> (error + string) \<times> trace" where
  "getIPV6GatewayIPFromRoutes_from e l deviceName maxTicks durationBetweenTicks numTicks tr =
     (if numTicks < maxTicks then
        (case getIPV6GatewayIPFromRoutesOnce e l deviceName tr of
           ((gateway, ok, Some err), tr1) \<Rightarrow> (Inl err, tr1)
         | ((gateway, ok, None), tr1) \<Rightarrow>
             if ok then (Inr gateway, tr1)
             else getIPV6GatewayIPFromRoutes_from e l deviceName maxTicks durationBetweenTicks
                    (numTicks + 1) (tr1 @ [EvSleep durationBetweenTicks]))
      else
        (Inl (Errorf (''getIPV6Gateway engine: unable to get gateway from route table for '' @ [CHR 0x27]
                       @ deviceName @ [CHR 0x27])), tr))"
  by pat_completeness auto
termination
  by (relation "measure (\<lambda>(e, l, deviceName, maxTicks, d, numTicks, tr). nat (maxTicks - numTicks))") auto

declare getIPV6GatewayIPFromRoutes_from.simps [simp del]

definition getIPV6GatewayIPFromRoutes ::
  "engine \<Rightarrow> link \<Rightarrow> string \<Rightarrow> int \<Rightarrow> int \<Rightarrow> trace \<Rightarrow> (error + string) \<times> trace" where
  "getIPV6GatewayIPFromRoutes e l deviceName maxTicks durationBetweenTicks tr =
     getIPV6GatewayIPFromRoutes_from e l deviceName maxTicks durationBetweenTicks 0 tr"

definition GetIPV6Gateway :: "engine \<Rightarrow> string \<Rightarrow> trace \<Rightarrow> (error + string) \<times> trace" where
  "GetIPV6Gateway e deviceName tr =
     (case LinkByName (netLink e) tr deviceName of
        Inl err \<Rightarrow>
          (Inl (Wrap err (''getIPV6Gateway engine: unable to get link for device '' @ [CHR 0x27]
                           @ deviceName @ [CHR 0x27])),
           tr @ [EvLinkByName deviceName])
      | Inr eniLink \<Rightarrow>
          getIPV6GatewayIPFromRoutes e eniLink deviceName
            (maxTicksForRetrievingIPV6Gateway e) (ipv6GatewayTickDuration e)
            (tr @ [EvLinkByName deviceName]))"

subsection \<open>DoesMACAddressMapToIPV4Address and DoesMACAddressMapToIPV6Address\<close>

definition addressesPath :: "string \<Rightarrow> string \<Rightarrow> string" where
  "addressesPath macAddress metatdataPathSuffix =
     metadataNetworkInterfacesPath @ macAddress @ metatdataPathSuffix"

text \<open>
  The unbounded \<open>for\<close> loop of \<open>doesMACAddressMapToIPAddress\<close> (lines 280 to 297), with
  the counter \<open>attempts\<close>: it returns the response of the first query that succeeds, or
  the error of the query after which the counter has reached the maximum. The counter is
  increased only below the maximum, so it does not overflow.
\<close>

function queryAddresses :: "engine \<Rightarrow> string \<Rightarrow> int \<Rightarrow> trace \<Rightarrow> (error + string) \<times> trace" where
  "queryAddresses e path attempts tr =
     (case GetMetadata (metadata e) tr path of
        Inr addressesResponse \<Rightarrow> (Inr addressesResponse, tr @ [EvGetMetadata path])
      | Inl err \<Rightarrow>
          if attempts \<ge> metadataMaxRetryCount e then (Inl err, tr @ [EvGetMetadata path])
          else queryAddresses e path (attempts + 1)
                 (tr @ [EvGetMetadata path] @ [EvSleep (metadataDurationBetweenRetries e)]))"
  by pat_completeness auto
termination
  by (relation "measure (\<lambda>(e, path, attempts, tr). nat (metadataMaxRetryCount e - attempts))") auto

declare queryAddresses.simps [simp del]

text \<open>The closing \<open>range\<close> loop over the lines of the response.\<close>

fun containsAddress :: "string list \<Rightarrow> string \<Rightarrow> bool" where
  "containsAddress [] addressToFind = False"
| "containsAddress (address # rest) addressToFind =
     (if address = addressToFind then True else containsAddress rest addressToFind)"

definition doesMACAddressMapToIPAddress ::
  "engine \<Rightarrow> string \<Rightarrow> string \<Rightarrow> string \<Rightarrow> trace \<Rightarrow> (error + bool) \<times> trace" where
  "doesMACAddressMapToIPAddress e macAddress addressToFind metatdataPathSuffix tr =
     (case queryAddresses e (addressesPath macAddress metatdataPathSuffix) 1 tr of
        (Inl err, tr1) \<Rightarrow>
          (Inl (Wrap err (''querying metadata path: '' @ [CHR 0x27]
                           @ addressesPath macAddress metatdataPathSuffix @ [CHR 0x27])), tr1)
      | (Inr addressesResponse, tr1) \<Rightarrow>
          (Inr (containsAddress (strings_Split addressesResponse CHR 0x0A) addressToFind), tr1))"

definition DoesMACAddressMapToIPV4Address ::
  "engine \<Rightarrow> string \<Rightarrow> string \<Rightarrow> trace \<Rightarrow> (error + bool) \<times> trace" where
  "DoesMACAddressMapToIPV4Address e macAddress ipv4Address tr =
     (case doesMACAddressMapToIPAddress e macAddress ipv4Address
             metadataNetworkInterfaceIPV4AddressesSuffix tr of
        (Inl err, tr1) \<Rightarrow>
          (Inl (Wrap err
             ''doesMACAddressMapToIPV4Address engine: unable to get ipv4 addresses from instance metadata''),
           tr1)
      | (Inr ok, tr1) \<Rightarrow> (Inr ok, tr1))"

definition DoesMACAddressMapToIPV6Address ::
  "engine \<Rightarrow> string \<Rightarrow> string \<Rightarrow> trace \<Rightarrow> (error + bool) \<times> trace" where
  "DoesMACAddressMapToIPV6Address e macAddress ipv6Address tr =
     (case doesMACAddressMapToIPAddress e macAddress ipv6Address
             metadataNetworkInterfaceIPV6AddressesSuffix tr of
        (Inl err, tr1) \<Rightarrow>
          (Inl (Wrap err
             ''doesMACAddressMapToIPv6Address engine: unable to get ipv6 addresses from instance metadata''),
           tr1)
      | (Inr ok, tr1) \<Rightarrow> (Inr ok, tr1))"

subsection \<open>SetupContainerNamespace\<close>

text \<open>
  Modelled from the spec: \<open>newSetupNamespaceClosureContext\<close> is a function of the engine
  package outside engine.go; the spec's step 4 builds the configuration value from the
  supplied names, addresses, gateways and flag. It is handed the netlink wrapper, so it
  is taken as a parameter \<open>newCtx\<close> that answers from the trace, and its call is an
  event. The result of \<open>SetupContainerNamespace\<close> is the returned error, \<open>None\<close> for nil.
  \<open>int(containerNS.Fd())\<close> reads the 64-bit \<open>uintptr\<close> as a signed number.
\<close>

type_synonym newSetupNamespaceClosureContext =
  "trace \<Rightarrow> string \<Rightarrow> string \<Rightarrow> string \<Rightarrow> string \<Rightarrow> string \<Rightarrow> string \<Rightarrow> string \<Rightarrow> bool
     \<Rightarrow> error + setupNamespaceClosureContext"

definition SetupContainerNamespace ::
  "newSetupNamespaceClosureContext \<Rightarrow> engine \<Rightarrow> CmdArgs \<Rightarrow> string \<Rightarrow> string \<Rightarrow> string \<Rightarrow> string
     \<Rightarrow> string \<Rightarrow> string \<Rightarrow> bool \<Rightarrow> trace \<Rightarrow> error option \<times> trace" where
  "SetupContainerNamespace newCtx e args deviceName macAddress ipv4Address ipv6Address
       ipv4Gateway ipv6Gateway blockIMDS tr =
     (case LinkByName (netLink e) tr deviceName of
        Inl err \<Rightarrow>
          (Some (Wrap err (''setupContainerNamespace engine: unable to get link for device '' @ [CHR 0x27]
                            @ deviceName @ [CHR 0x27])),
           tr @ [EvLinkByName deviceName])
      | Inr eniLink \<Rightarrow>
     (case GetNS (ns e) (tr @ [EvLinkByName deviceName]) (Netns args) of
        Inl err \<Rightarrow>
          (Some (Wrap err (''setupContainerNamespace engine: unable to get network namespace for '' @ [CHR 0x27]
                            @ Netns args @ [CHR 0x27])),
           tr @ [EvLinkByName deviceName, EvGetNS (Netns args)])
      | Inr containerNS \<Rightarrow>
     (case LinkSetNsFd (netLink e) (tr @ [EvLinkByName deviceName, EvGetNS (Netns args)])
             eniLink (sint (Fd containerNS)) of
        Some err \<Rightarrow>
          (Some (Wrap err (''setupContainerNamespace engine: unable to move device '' @ [CHR 0x27]
                            @ deviceName @ [CHR 0x27] @ '' to container namespace '' @ [CHR 0x27]
                            @ Netns args @ [CHR 0x27])),
           tr @ [EvLinkByName deviceName, EvGetNS (Netns args),
                 EvLinkSetNsFd eniLink (sint (Fd containerNS))])
      | None \<Rightarrow>
     (case newCtx (tr @ [EvLinkByName deviceName, EvGetNS (Netns args),
                         EvLinkSetNsFd eniLink (sint (Fd containerNS))])
             (IfName args) deviceName macAddress ipv4Address ipv6Address ipv4Gateway ipv6Gateway blockIMDS of
        Inl err \<Rightarrow>
          (Some (Wrap err
             ''setupContainerNamespace engine: unable to create closure to execute in container namespace''),
           tr @ [EvLinkByName deviceName, EvGetNS (Netns args),
                 EvLinkSetNsFd eniLink (sint (Fd containerNS)),
                 EvNewSetupNamespaceClosureContext (IfName args) deviceName macAddress ipv4Address
                   ipv6Address ipv4Gateway ipv6Gateway blockIMDS])
      | Inr toRun \<Rightarrow>
     (case WithNetNSPath (ns e)
             (tr @ [EvLinkByName deviceName, EvGetNS (Netns args),
                    EvLinkSetNsFd eniLink (sint (Fd containerNS)),
                    EvNewSetupNamespaceClosureContext (IfName args) deviceName macAddress ipv4Address
                      ipv6Address ipv4Gateway ipv6Gateway blockIMDS])
             (Netns args) toRun of
        Some err \<Rightarrow>
          (Some (Wrap err (''setupContainerNamespace engine: unable to setup device '' @ [CHR 0x27]
                            @ deviceName @ [CHR 0x27] @ '' in namespace '' @ [CHR 0x27]
                            @ Netns args @ [CHR 0x27])),
           tr @ [EvLinkByName deviceName, EvGetNS (Netns args),
                 EvLinkSetNsFd eniLink (sint (Fd containerNS)),
                 EvNewSetupNamespaceClosureContext (IfName args) deviceName macAddress ipv4Address
                   ipv6Address ipv4Gateway ipv6Gateway blockIMDS,
                 EvWithNetNSPath (Netns args) toRun])
      | None \<Rightarrow>
          (None,
           tr @ [EvLinkByName deviceName, EvGetNS (Netns args),
                 EvLinkSetNsFd eniLink (sint (Fd containerNS)),
                 EvNewSetupNamespaceClosureContext (IfName args) deviceName macAddress ipv4Address
                   ipv6Address ipv4Gateway ipv6Gateway blockIMDS,
                 EvWithNetNSPath (Netns args) toRun]))))))"

subsection \<open>Vocabulary of the properties\<close>

text \<open>
  The default route in the words of the specification: no destination prefix, no source
  address, and a gateway address that is not empty.
\<close>

definition isDefaultRoute :: "Route \<Rightarrow> bool" where
  "isDefaultRoute r \<longleftrightarrow> Dst r = None \<and> Src r = [] \<and> Gw r \<noteq> []"

text \<open>The two errors of the gateway poll, as the engine builds them.\<close>

definition gatewayNotFound :: "string \<Rightarrow> error" where
  "gatewayNotFound deviceName =
     Errorf (''getIPV6Gateway engine: unable to get gateway from route table for '' @ [CHR 0x27]
              @ deviceName @ [CHR 0x27])"

definition routesUnavailable :: "error \<Rightarrow> string \<Rightarrow> error" where
  "routesUnavailable err deviceName =
     Wrap err (''getIPV6Gateway engine: unable to get ipv6 routes for device '' @ [CHR 0x27]
                @ deviceName @ [CHR 0x27])"

text \<open>
  The scan of the routes without the test of the string form of \<open>Dst\<close>: a route is taken
  when \<open>Dst\<close> is nil, the string form of \<open>Src\<close> is \<open><nil>\<close> and that of \<open>Gw\<close> is not.
\<close>

fun scanRoutes_Dst_nil_only :: "Route list \<Rightarrow> string \<times> bool \<times> error option" where
  "scanRoutes_Dst_nil_only [] = ([], False, None)"
| "scanRoutes_Dst_nil_only (route # routes) =
     (if Dst route = None
         \<and> IP_String (Src route) = zeroLengthIPString
         \<and> IP_String (Gw route) \<noteq> zeroLengthIPString
        then (IP_String (Gw route), True, None)
      else scanRoutes_Dst_nil_only routes)"

text \<open>The events of \<open>k\<close> polling ticks that each list the routes and then sleep.\<close>

definition gatewayTicks :: "link \<Rightarrow> int \<Rightarrow> nat \<Rightarrow> trace" where
  "gatewayTicks l d k = concat (replicate k [EvRouteList l FAMILY_V6, EvSleep d])"

text \<open>
  Tick \<open>j\<close> of a poll that started at the trace \<open>tr\<close> is quiet when its listing succeeds
  and holds no default route.
\<close>

definition quietTick :: "engine \<Rightarrow> link \<Rightarrow> int \<Rightarrow> trace \<Rightarrow> nat \<Rightarrow> bool" where
  "quietTick e l d tr j =
     (case RouteList (netLink e) (tr @ gatewayTicks l d j) l FAMILY_V6 of
        Inl err \<Rightarrow> False
      | Inr routes \<Rightarrow> find isDefaultRoute routes = None)"

text \<open>The errors of a failed move and of a failed run in the namespace, as the engine builds them.\<close>

definition moveFailed :: "error \<Rightarrow> string \<Rightarrow> string \<Rightarrow> error" where
  "moveFailed err deviceName netns =
     Wrap err (''setupContainerNamespace engine: unable to move device '' @ [CHR 0x27]
                @ deviceName @ [CHR 0x27] @ '' to container namespace '' @ [CHR 0x27]
                @ netns @ [CHR 0x27])"

definition executionFailed :: "error \<Rightarrow> string \<Rightarrow> string \<Rightarrow> error" where
  "executionFailed err deviceName netns =
     Wrap err (''setupContainerNamespace engine: unable to setup device '' @ [CHR 0x27]
                @ deviceName @ [CHR 0x27] @ '' in namespace '' @ [CHR 0x27]
                @ netns @ [CHR 0x27])"

text \<open>How often a trace runs a closure in a namespace, and how often it moves a link.\<close>

definition closureRuns :: "trace \<Rightarrow> nat" where
  "closureRuns tr = length (filter (\<lambda>ev. case ev of EvWithNetNSPath _ _ \<Rightarrow> True | _ \<Rightarrow> False) tr)"

definition linkMoves :: "trace \<Rightarrow> nat" where
  "linkMoves tr = length (filter (\<lambda>ev. case ev of EvLinkSetNsFd _ _ \<Rightarrow> True | _ \<Rightarrow> False) tr)"

text \<open>The error of the retried query, and the error of an ENI without MAC address.\<close>

definition queryFailed :: "error \<Rightarrow> string \<Rightarrow> error" where
  "queryFailed err path = Wrap err (''querying metadata path: '' @ [CHR 0x27] @ path @ [CHR 0x27])"


text \<open>\<open>strings.Join\<close> with a one-byte separator, to say what a split is.\<close>

fun joinWith :: "char \<Rightarrow> string list \<Rightarrow> string" where
  "joinWith sep [] = []"
| "joinWith sep [x] = x"
| "joinWith sep (x # y # ys) = x @ [sep] @ joinWith sep (y # ys)"

text \<open>The events of \<open>k\<close> metadata queries of a path that are each followed by a sleep.\<close>

definition queryRounds :: "string \<Rightarrow> int \<Rightarrow> nat \<Rightarrow> trace" where
  "queryRounds path d k = concat (replicate k [EvGetMetadata path, EvSleep d])"

text \<open>Attempt \<open>j\<close> (counted from 0) of a retried query that started at the trace \<open>tr\<close> fails.\<close>

definition failedAttempt :: "engine \<Rightarrow> string \<Rightarrow> trace \<Rightarrow> nat \<Rightarrow> bool" where
  "failedAttempt e path tr j =
     (case GetMetadata (metadata e) (tr @ queryRounds path (metadataDurationBetweenRetries e) j) path of
        Inl err \<Rightarrow> True
      | Inr response \<Rightarrow> False)"









subsection \<open>Test doubles\<close>

text \<open>
  Collaborators for the concrete runs below, in the manner of the mocks of the engine's
  tests. A scripted metadata client answers its k-th call with the k-th entry of its
  script and fails once the script is used up; the path-keyed one answers by path.
\<close>

definition countGetMetadata :: "trace \<Rightarrow> nat" where
  "countGetMetadata tr = length (filter (\<lambda>ev. case ev of EvGetMetadata _ \<Rightarrow> True | _ \<Rightarrow> False) tr)"

definition scriptedMetadata :: "(error + string) list \<Rightarrow> EC2Metadata" where
  "scriptedMetadata script =
     \<lparr> GetMetadata = (\<lambda>tr path.
         if countGetMetadata tr < length script then script ! countGetMetadata tr
         else Inl (External ''metadata: no more answers'')) \<rparr>"


definition countRouteList :: "trace \<Rightarrow> nat" where
  "countRouteList tr = length (filter (\<lambda>ev. case ev of EvRouteList _ _ \<Rightarrow> True | _ \<Rightarrow> False) tr)"

text \<open>
  A netlink wrapper that finds every link (with index 2), answers its k-th route
  listing from a script, and answers every move of a link with the given result.
\<close>

definition scriptedNetLink :: "(error + Route list) list \<Rightarrow> error option \<Rightarrow> NetLink" where
  "scriptedNetLink script moveResult =
     \<lparr> LinkByName = (\<lambda>tr name. Inr (Link 2 name)),
       RouteList = (\<lambda>tr l family.
         if countRouteList tr < length script then script ! countRouteList tr
         else Inl (External ''netlink: no more answers'')),
       LinkSetNsFd = (\<lambda>tr l fd. moveResult) \<rparr>"

text \<open>A namespace wrapper that resolves every path (to descriptor 7) and answers every
  scoped execution with the given result.\<close>

definition stubNS :: "error option \<Rightarrow> NS" where
  "stubNS runResult =
     \<lparr> GetNS = (\<lambda>tr path. Inr (NetNS 7 path)),
       WithNetNSPath = (\<lambda>tr path toRun. runResult) \<rparr>"

definition stubNewCtx :: newSetupNamespaceClosureContext where
  "stubNewCtx tr ifName deviceName macAddress ipv4Address ipv6Address ipv4Gateway ipv6Gateway blockIMDS =
     Inr \<lparr> ctx_ifName = ifName, ctx_deviceName = deviceName, ctx_macAddress = macAddress,
           ctx_ipv4Address = ipv4Address, ctx_ipv6Address = ipv6Address,
           ctx_ipv4Gateway = ipv4Gateway, ctx_ipv6Gateway = ipv6Gateway,
           ctx_blockIMDS = blockIMDS \<rparr>"

text \<open>An engine with the default configuration that polls a scripted route table.\<close>

definition pollingEngine :: "(error + Route list) list \<Rightarrow> engine" where
  "pollingEngine script = create (scriptedMetadata []) (scriptedNetLink script None) (stubNS None)"

text \<open>
  Three routes: a default route with the gateway fe80::1, a route to a prefix, and a
  route whose \<open>Dst\<close> is set to a network without address and mask, which prints
  as \<open><nil>\<close>.
\<close>

definition gatewayFe80 :: IP where
  "gatewayFe80 = [0xfe, 0x80, 0, 0, 0, 0, 0, 0, 0, 0, 0, 0, 0, 0, 0, 1]"

definition defaultRoute :: Route where
  "defaultRoute = \<lparr> Dst = None, Src = [], Gw = gatewayFe80 \<rparr>"

definition prefixRoute :: Route where
  "prefixRoute =
     \<lparr> Dst = Some \<lparr> IPNet_IP = [0x20, 0x01, 0x0d, 0xb8, 0, 0, 0, 0, 0, 0, 0, 0, 0, 0, 0, 0],
                     IPNet_Mask = [0xff, 0xff, 0xff, 0xff, 0xff, 0xff, 0xff, 0xff, 0, 0, 0, 0, 0, 0, 0, 0] \<rparr>,
       Src = [], Gw = [] \<rparr>"

definition emptyDstRoute :: Route where
  "emptyDstRoute = \<lparr> Dst = Some \<lparr> IPNet_IP = [], IPNet_Mask = [] \<rparr>, Src = [], Gw = gatewayFe80 \<rparr>"

text \<open>An engine that permits three attempts of the retried query and answers from a script.\<close>

definition retryEngine :: "(error + string) list \<Rightarrow> engine" where
  "retryEngine script =
     (create (scriptedMetadata script) (scriptedNetLink [] None) (stubNS None))
       \<lparr> metadataMaxRetryCount := 3 \<rparr>"

text \<open>Engines whose move of the link fails, and whose run in the namespace fails.\<close>

definition moveFailingEngine :: engine where
  "moveFailingEngine =
     create (scriptedMetadata [])
       (scriptedNetLink [] (Some (External ''netlink: operation not permitted''))) (stubNS None)"

definition runFailingEngine :: engine where
  "runFailingEngine =
     create (scriptedMetadata []) (scriptedNetLink [] None)
       (stubNS (Some (External ''closure: unable to add address'')))"

definition containerArgs :: CmdArgs where
  "containerArgs = \<lparr> Netns = ''/proc/42/ns/net'', IfName = ''eth0'' \<rparr>"

definition failingNetLink :: NetLink where
  "failingNetLink =
     \<lparr> LinkByName = (\<lambda>tr name. Inl (External ''netlink: no such link'')),
       RouteList = (\<lambda>tr l family. Inl (External ''netlink: route list failed'')),
       LinkSetNsFd = (\<lambda>tr l fd. Some (External ''netlink: cannot move link'')) \<rparr>"

definition failingNS :: NS where
  "failingNS =
     \<lparr> GetNS = (\<lambda>tr path. Inl (External ''ns: no such namespace'')),
       WithNetNSPath = (\<lambda>tr path toRun. Some (External ''ns: cannot enter namespace'')) \<rparr>"



section \<open>Properties\<close>

subsection \<open>Splitting\<close>

lemma split_from_not_empty: "split_from sep cur s \<noteq> []"
  by (induction s arbitrary: cur) auto

lemma strings_Split_not_empty: "strings_Split s sep \<noteq> []"
  by (simp add: strings_Split_def split_from_not_empty)



lemma joinWith_Cons: "rest \<noteq> [] \<Longrightarrow> joinWith sep (x # rest) = x @ [sep] @ joinWith sep rest"
  by (cases rest) simp_all

lemma split_from_join: "joinWith sep (split_from sep cur s) = cur @ s"
  by (induction s arbitrary: cur) (simp_all add: joinWith_Cons split_from_not_empty)

lemma split_from_no_sep:
  "sep \<notin> set cur \<Longrightarrow> list_all (\<lambda>piece. sep \<notin> set piece) (split_from sep cur s)"
  by (induction s arbitrary: cur) simp_all

lemma split_from_plain: "sep \<notin> set s \<Longrightarrow> split_from sep cur s = [cur @ s]"
  by (induction s arbitrary: cur) auto

lemma split_from_append:
  "sep \<notin> set x \<Longrightarrow> split_from sep cur (x @ sep # rest) = (cur @ x) # split_from sep [] rest"
  by (induction x arbitrary: cur) auto

lemma split_from_of_join:
  "list_all (\<lambda>piece. sep \<notin> set piece) (x # xs) \<Longrightarrow>
     split_from sep cur (joinWith sep (x # xs)) = (cur @ x) # xs"
proof (induction xs arbitrary: x cur)
  case Nil
  then show ?case by (simp add: split_from_plain)
next
  case (Cons y ys)
  then have "split_from sep [] (joinWith sep (y # ys)) = y # ys" by simp
  with Cons.prems show ?case by (simp add: split_from_append)
qed

lemma strings_Split_join: "joinWith sep (strings_Split s sep) = s"
  by (simp add: strings_Split_def split_from_join)

lemma strings_Split_no_sep: "list_all (\<lambda>piece. sep \<notin> set piece) (strings_Split s sep)"
  by (simp add: strings_Split_def split_from_no_sep)

lemma strings_Split_of_join:
  "pieces \<noteq> [] \<Longrightarrow> list_all (\<lambda>piece. sep \<notin> set piece) pieces \<Longrightarrow>
     strings_Split (joinWith sep pieces) sep = pieces"
  by (cases pieces) (simp_all add: strings_Split_def split_from_of_join)

subsection \<open>GetAllMACAddresses\<close>

text \<open>
  Claim C10. Whenever the metadata query succeeds, \<open>GetAllMACAddresses\<close> returns the
  newline-split of the response: the pieces, joined by newlines, give back the response,
  and no piece holds a newline, so that a response which is the join of pieces without
  newlines yields exactly these pieces. The list has at least one element; a successful
  empty response yields the one-element list holding the empty string.
\<close>

theorem GetAllMACAddresses_at_least_one:
  assumes "GetMetadata (metadata e) tr metadataNetworkInterfacesPath = Inr macs"
  shows "fst (GetAllMACAddresses e tr) = Inr (strings_Split macs CHR 0x0A)
       \<and> joinWith CHR 0x0A (strings_Split macs CHR 0x0A) = macs
       \<and> list_all (\<lambda>piece. CHR 0x0A \<notin> set piece) (strings_Split macs CHR 0x0A)
       \<and> 1 \<le> length (strings_Split macs CHR 0x0A)
       \<and> (macs = [] \<longrightarrow> fst (GetAllMACAddresses e tr) = Inr [[]])
       \<and> (pieces \<noteq> [] \<longrightarrow> list_all (\<lambda>piece. CHR 0x0A \<notin> set piece) pieces \<longrightarrow>
            macs = joinWith CHR 0x0A pieces \<longrightarrow> fst (GetAllMACAddresses e tr) = Inr pieces)"
proof -
  have "strings_Split macs CHR 0x0A \<noteq> []"
    by (rule strings_Split_not_empty)
  then have len: "1 \<le> length (strings_Split macs CHR 0x0A)"
    by (cases "strings_Split macs CHR 0x0A") simp_all
  have res: "fst (GetAllMACAddresses e tr) = Inr (strings_Split macs CHR 0x0A)"
    using assms by (simp add: GetAllMACAddresses_def)
  have empty: "strings_Split [] CHR 0x0A = [[]]"
    by (simp add: strings_Split_def)
  have uniq: "fst (GetAllMACAddresses e tr) = Inr pieces"
    if "pieces \<noteq> []" "list_all (\<lambda>piece. CHR 0x0A \<notin> set piece) pieces"
       "macs = joinWith CHR 0x0A pieces"
    using that res by (simp add: strings_Split_of_join)
  from len res empty uniq show ?thesis
    by (auto simp: strings_Split_join strings_Split_no_sep)
qed

theorem GetAllMACAddresses_at_least_one_witness:
  "GetMetadata (metadata (create (scriptedMetadata [Inr ''0a:1b:2c:3d:4e:5f/\<newline>0a:6b:7c:8d:9e:0f/''])
       failingNetLink failingNS)) [] metadataNetworkInterfacesPath
     = Inr ''0a:1b:2c:3d:4e:5f/\<newline>0a:6b:7c:8d:9e:0f/''
   \<and> fst (GetAllMACAddresses (create (scriptedMetadata [Inr ''0a:1b:2c:3d:4e:5f/\<newline>0a:6b:7c:8d:9e:0f/''])
       failingNetLink failingNS) []) = Inr [''0a:1b:2c:3d:4e:5f/'', ''0a:6b:7c:8d:9e:0f/'']
   \<and> GetMetadata (metadata (create (scriptedMetadata [Inr []]) failingNetLink failingNS)) []
       metadataNetworkInterfacesPath = Inr []
   \<and> fst (GetAllMACAddresses (create (scriptedMetadata [Inr []]) failingNetLink failingNS) []) = Inr [[]]"
proof -
  let ?two = "create (scriptedMetadata [Inr ''0a:1b:2c:3d:4e:5f/\<newline>0a:6b:7c:8d:9e:0f/'']) failingNetLink failingNS"
  let ?none = "create (scriptedMetadata [Inr []]) failingNetLink failingNS"
  have h2: "GetMetadata (metadata ?two) [] metadataNetworkInterfacesPath
      = Inr ''0a:1b:2c:3d:4e:5f/\<newline>0a:6b:7c:8d:9e:0f/''"
    by (simp add: create_def scriptedMetadata_def countGetMetadata_def)
  have h0: "GetMetadata (metadata ?none) [] metadataNetworkInterfacesPath = Inr []"
    by (simp add: create_def scriptedMetadata_def countGetMetadata_def)
  have j: "''0a:1b:2c:3d:4e:5f/\<newline>0a:6b:7c:8d:9e:0f/''
      = joinWith CHR 0x0A [''0a:1b:2c:3d:4e:5f/'', ''0a:6b:7c:8d:9e:0f/'']"
    by simp
  have p: "list_all (\<lambda>piece. CHR 0x0A \<notin> set piece) [''0a:1b:2c:3d:4e:5f/'', ''0a:6b:7c:8d:9e:0f/'']"
    by simp
  from GetAllMACAddresses_at_least_one [OF h2, of "[''0a:1b:2c:3d:4e:5f/'', ''0a:6b:7c:8d:9e:0f/'']"] j p
  have a: "fst (GetAllMACAddresses ?two []) = Inr [''0a:1b:2c:3d:4e:5f/'', ''0a:6b:7c:8d:9e:0f/'']"
    by blast
  from GetAllMACAddresses_at_least_one [OF h0, of "[]"]
  have b: "fst (GetAllMACAddresses ?none []) = Inr [[]]"
    by blast
  from h2 h0 a b show ?thesis by blast
qed

subsection \<open>GetMACAddressOfENI\<close>

text \<open>
  Claim C9. \<open>GetMACAddressOfENI\<close> called with an empty candidate list fails with an
  UnmappedMACAddress error (whose message names the ENI id) and issues no metadata
  query: the trace is returned as it was.
\<close>

theorem GetMACAddressOfENI_empty:
  "GetMACAddressOfENI e [] eniID tr =
     (Inl (UnmappedMACAddressError ''getMACAddressOfENI'' ''engine''
            (''mac address of ENI '' @ [CHR 0x27] @ eniID @ [CHR 0x27] @ '' not found'')), tr)"
  by (simp add: NewUnmappedMACAddressError_def)










subsection \<open>Printing addresses\<close>

text \<open>
  The string form of an address is \<open><nil>\<close> exactly for the empty address: the dotted
  form holds a dot, the hexadecimal form starts with a question mark, and the IPv6 form
  holds a colon.
\<close>

lemma appendHex_extends: "\<exists>t. appendHex dst i = dst @ t"
  by (simp add: appendHex_def)

lemma printGroups_extends: "\<exists>t. printGroups p e0 e1 i b = b @ t"
proof (induction p e0 e1 i b rule: printGroups.induct)
  case (1 p e0 e1 i b)
  show ?case
  proof (cases "i < IPv6len")
    case False
    then show ?thesis by (simp add: printGroups.simps)
  next
    case lt: True
    show ?thesis
    proof (cases "int i = e0")
      case at: True
      show ?thesis
      proof (cases "e1 \<ge> int IPv6len \<or> e1 < int i")
        case True
        with lt at show ?thesis by (subst printGroups.simps) simp
      next
        case False
        obtain t1 where t1: "appendHex (b @ ''::'') (chunk16 p (nat e1)) = (b @ ''::'') @ t1"
          using appendHex_extends by blast
        from "1.IH"(1) [OF lt at False] obtain t2 where
          "printGroups p e0 e1 (nat e1 + 2) (appendHex (b @ ''::'') (chunk16 p (nat e1)))
             = appendHex (b @ ''::'') (chunk16 p (nat e1)) @ t2" by blast
        with lt at False t1 show ?thesis by (subst printGroups.simps) simp
      qed
    next
      case nat: False
      show ?thesis
      proof (cases "i > 0")
        case True
        obtain t1 where t1: "appendHex (b @ '':'') (chunk16 p i) = (b @ '':'') @ t1"
          using appendHex_extends by blast
        from "1.IH"(2) [OF lt nat True] obtain t2 where
          "printGroups p e0 e1 (i + 2) (appendHex (b @ '':'') (chunk16 p i))
             = appendHex (b @ '':'') (chunk16 p i) @ t2" by blast
        with lt nat True t1 show ?thesis by (subst printGroups.simps) simp
      next
        case False
        obtain t1 where t1: "appendHex b (chunk16 p i) = b @ t1"
          using appendHex_extends by blast
        from "1.IH"(3) [OF lt nat False] obtain t2 where
          "printGroups p e0 e1 (i + 2) (appendHex b (chunk16 p i))
             = appendHex b (chunk16 p i) @ t2" by blast
        with lt nat False t1 show ?thesis by (subst printGroups.simps) simp
      qed
    qed
  qed
qed


lemma printGroups_keeps: "c \<in> set b \<Longrightarrow> c \<in> set (printGroups p e0 e1 i b)"
  using printGroups_extends [of p e0 e1 i b] by auto

lemma appendHex_keeps: "c \<in> set dst \<Longrightarrow> c \<in> set (appendHex dst i)"
  using appendHex_extends [of dst i] by auto

lemma printGroups_colon_from: 
  assumes "i + 2 < IPv6len"
  shows "CHR '':'' \<in> set (printGroups p e0 e1 i b)"
proof -
  have lt: "i < IPv6len" using assms by simp
  show ?thesis
  proof (cases "int i = e0")
    case True
    have "CHR '':'' \<in> set (b @ ''::'')" by simp
    then show ?thesis
      using lt True
      by (subst printGroups.simps) (simp add: printGroups_keeps appendHex_keeps)
  next
    case ne: False
    let ?b1 = "appendHex (if i > 0 then b @ '':'' else b) (chunk16 p i)"
    have step: "printGroups p e0 e1 i b = printGroups p e0 e1 (i + 2) ?b1"
      using lt ne by (subst printGroups.simps) simp
    have lt2: "i + 2 < IPv6len" using assms .
    show ?thesis
    proof (cases "int (i + 2) = e0")
      case True
      have "CHR '':'' \<in> set (?b1 @ ''::'')" by simp
      then have "CHR '':'' \<in> set (printGroups p e0 e1 (i + 2) ?b1)"
        using lt2 True
        by (subst printGroups.simps) (simp add: printGroups_keeps appendHex_keeps)
      with step show ?thesis by simp
    next
      case False
      have "CHR '':'' \<in> set (appendHex (?b1 @ '':'') (chunk16 p (i + 2)))"
        by (rule appendHex_keeps) simp
      then have "CHR '':'' \<in> set (printGroups p e0 e1 (i + 2) ?b1)"
        using lt2 False
        by (subst printGroups.simps) (simp add: printGroups_keeps)
      with step show ?thesis by simp
    qed
  qed
qed

lemma IP_String_nil_iff: "IP_String ip = ''<nil>'' \<longleftrightarrow> ip = []"
proof
  assume "ip = []"
  then show "IP_String ip = ''<nil>''" by (simp add: IP_String_def)
next
  assume nil: "IP_String ip = ''<nil>''"
  show "ip = []"
  proof (rule ccontr)
    assume ne: "ip \<noteq> []"
    have dot: "CHR ''.'' \<notin> set ''<nil>''" and colon: "CHR '':'' \<notin> set ''<nil>''"
      and q: "hd ''<nil>'' \<noteq> CHR ''?''" by simp_all
    consider (v4) "length (To4 ip) = IPv4len"
      | (odd) "length (To4 ip) \<noteq> IPv4len" "length ip \<noteq> IPv6len"
      | (v6) "length (To4 ip) \<noteq> IPv4len" "length ip = IPv6len" by blast
    then show False
    proof cases
      case v4
      with ne have "CHR ''.'' \<in> set (IP_String ip)" by (simp add: IP_String_def)
      with nil dot show False by simp
    next
      case odd
      with ne have "hd (IP_String ip) = CHR ''?''" by (simp add: IP_String_def)
      with nil q show False by simp
    next
      case v6
      have "CHR '':'' \<in> set (printGroups ip a b 0 [])" for a b
        by (rule printGroups_colon_from) (simp add: IPv6len_def)
      moreover obtain a b where "longestZeroRun ip 0 (- 1) (- 1) = (a, b)"
        by (cases "longestZeroRun ip 0 (- 1) (- 1)")
      ultimately have "CHR '':'' \<in> set (IP_String ip)"
        using ne v6 by (simp add: IP_String_def IPv6len_def)
      with nil colon show False by simp
    qed
  qed
qed

lemma scanRoutes_find:
  "scanRoutes routes =
     (case find isDefaultRoute routes of
        None \<Rightarrow> ([], False, None)
      | Some r \<Rightarrow> (IP_String (Gw r), True, None))"
  by (induction routes)
     (auto simp: isDefaultRoute_def zeroLengthIPString_def IP_String_nil_iff)


subsection \<open>The scan of the listed routes\<close>

text \<open>
  Claim C8. In the scan of the listed routes, a route whose \<open>Dst\<close> is not nil is skipped
  before the tests of the string forms, so the test of the string form of \<open>Dst\<close> decides
  nothing: the scan equals the scan without that test, a route with a \<open>Dst\<close> is skipped
  whatever its string form, and a gateway is returned only from a route whose \<open>Dst\<close> is
  nil, whose \<open>Src\<close> prints as \<open><nil>\<close> and whose \<open>Gw\<close> does not.
\<close>

theorem Dst_string_test_unreachable:
  "scanRoutes routes = scanRoutes_Dst_nil_only routes
   \<and> (Dst route \<noteq> None \<longrightarrow> scanRoutes (route # routes) = scanRoutes routes)
   \<and> (scanRoutes routes = (gateway, True, err) \<longrightarrow>
        (\<exists>r \<in> set routes. Dst r = None \<and> IP_String (Src r) = zeroLengthIPString
           \<and> IP_String (Gw r) \<noteq> zeroLengthIPString \<and> gateway = IP_String (Gw r)))"
proof (intro conjI impI)
  show "scanRoutes routes = scanRoutes_Dst_nil_only routes"
    by (induction routes) auto
  show "scanRoutes (route # routes) = scanRoutes routes" if "Dst route \<noteq> None"
    using that by simp
  show "\<exists>r \<in> set routes. Dst r = None \<and> IP_String (Src r) = zeroLengthIPString
           \<and> IP_String (Gw r) \<noteq> zeroLengthIPString \<and> gateway = IP_String (Gw r)"
    if "scanRoutes routes = (gateway, True, err)"
    using that by (induction routes) (auto split: if_splits)
qed

theorem Dst_string_test_unreachable_witness:
  "Dst emptyDstRoute \<noteq> None
   \<and> IPNet_String (the (Dst emptyDstRoute)) = zeroLengthIPString
   \<and> scanRoutes [emptyDstRoute, defaultRoute] = scanRoutes [defaultRoute]
   \<and> scanRoutes [emptyDstRoute] = ([], False, None)
   \<and> scanRoutes [defaultRoute] = (''fe80::1'', True, None)
   \<and> Dst defaultRoute = None"
proof -
  have d: "Dst emptyDstRoute \<noteq> None" by (simp add: emptyDstRoute_def)
  have s: "IPNet_String (the (Dst emptyDstRoute)) = zeroLengthIPString" by code_simp
  have r: "scanRoutes [defaultRoute] = (''fe80::1'', True, None)" by code_simp
  have n: "Dst defaultRoute = None" by (simp add: defaultRoute_def)
  note inst = Dst_string_test_unreachable [of _ emptyDstRoute "''fe80::1''" None]
  from inst [of "[defaultRoute]"] d
  have a: "scanRoutes [emptyDstRoute, defaultRoute] = scanRoutes [defaultRoute]" by blast
  from inst [of "[]"] d
  have b: "scanRoutes [emptyDstRoute] = ([], False, None)" by simp
  from inst [of "[defaultRoute]"] r
  have "\<exists>x \<in> set [defaultRoute]. Dst x = None" by blast
  with d s a b r show ?thesis by simp
qed

subsection \<open>The gateway poll\<close>

lemma gatewayTicks_Suc:
  "gatewayTicks l d (Suc k) = [EvRouteList l FAMILY_V6, EvSleep d] @ gatewayTicks l d k"
  by (simp add: gatewayTicks_def)

lemma gatewayTicks_0: "gatewayTicks l d 0 = []"
  by (simp add: gatewayTicks_def)

lemma quietTick_shift:
  "quietTick e l d (tr @ [EvRouteList l FAMILY_V6, EvSleep d]) j = quietTick e l d tr (Suc j)"
  by (simp add: quietTick_def gatewayTicks_Suc)

lemma poll_step:
  "getIPV6GatewayIPFromRoutes_from e l deviceName maxTicks d numTicks tr =
     (if numTicks < maxTicks then
        (case RouteList (netLink e) tr l FAMILY_V6 of
           Inl err \<Rightarrow>
             (Inl (routesUnavailable err deviceName),
              tr @ [EvRouteList l FAMILY_V6])
         | Inr routes \<Rightarrow>
             (case find isDefaultRoute routes of
                Some r \<Rightarrow> (Inr (IP_String (Gw r)), tr @ [EvRouteList l FAMILY_V6])
              | None \<Rightarrow>
                  getIPV6GatewayIPFromRoutes_from e l deviceName maxTicks d (numTicks + 1)
                    (tr @ [EvRouteList l FAMILY_V6, EvSleep d])))
      else
        (Inl (gatewayNotFound deviceName), tr))"
  by (subst getIPV6GatewayIPFromRoutes_from.simps)
     (simp add: getIPV6GatewayIPFromRoutesOnce_def scanRoutes_find gatewayNotFound_def
        routesUnavailable_def split: sum.split option.split)

lemma poll_outcome_from:
  "nat (maxTicks - numTicks) = n \<Longrightarrow>
   \<exists>m\<le>n. (\<forall>j<m. quietTick e l d tr j) \<and>
     (m = n \<and>
        getIPV6GatewayIPFromRoutes_from e l deviceName maxTicks d numTicks tr =
          (Inl (gatewayNotFound deviceName),
           tr @ gatewayTicks l d m)
      \<or> m < n \<and>
        (\<exists>err. RouteList (netLink e) (tr @ gatewayTicks l d m) l FAMILY_V6 = Inl err \<and>
           getIPV6GatewayIPFromRoutes_from e l deviceName maxTicks d numTicks tr =
             (Inl (routesUnavailable err deviceName),
              tr @ gatewayTicks l d m @ [EvRouteList l FAMILY_V6]))
      \<or> m < n \<and>
        (\<exists>routes r. RouteList (netLink e) (tr @ gatewayTicks l d m) l FAMILY_V6 = Inr routes \<and>
           find isDefaultRoute routes = Some r \<and>
           getIPV6GatewayIPFromRoutes_from e l deviceName maxTicks d numTicks tr =
             (Inr (IP_String (Gw r)), tr @ gatewayTicks l d m @ [EvRouteList l FAMILY_V6])))"
proof (induction n arbitrary: numTicks tr)
  case 0
  then have "\<not> numTicks < maxTicks" by simp
  then show ?case
    by (subst poll_step) (simp add: gatewayTicks_0)
next
  case (Suc n)
  then have lt: "numTicks < maxTicks" by simp
  show ?case
  proof (cases "RouteList (netLink e) tr l FAMILY_V6")
    case (Inl err)
    with lt have
      "getIPV6GatewayIPFromRoutes_from e l deviceName maxTicks d numTicks tr =
         (Inl (routesUnavailable err deviceName),
          tr @ [EvRouteList l FAMILY_V6])"
      by (subst poll_step) simp
    with Inl show ?thesis
      by (intro exI [of _ 0]) (simp add: gatewayTicks_0)
  next
    case (Inr routes)
    show ?thesis
    proof (cases "find isDefaultRoute routes")
      case (Some r)
      with lt Inr have
        "getIPV6GatewayIPFromRoutes_from e l deviceName maxTicks d numTicks tr =
           (Inr (IP_String (Gw r)), tr @ [EvRouteList l FAMILY_V6])"
        by (subst poll_step) simp
      with Inr Some show ?thesis
        by (intro exI [of _ 0]) (simp add: gatewayTicks_0)
    next
      case None
      let ?tr = "tr @ [EvRouteList l FAMILY_V6, EvSleep d]"
      have step: "getIPV6GatewayIPFromRoutes_from e l deviceName maxTicks d numTicks tr =
          getIPV6GatewayIPFromRoutes_from e l deviceName maxTicks d (numTicks + 1) ?tr"
        using lt Inr None by (subst poll_step) simp
      have q0: "quietTick e l d tr 0"
        using Inr None by (simp add: quietTick_def gatewayTicks_0)
      have "nat (maxTicks - (numTicks + 1)) = n" using Suc.prems by simp
      from Suc.IH [OF this, of ?tr] obtain m where
        m: "m \<le> n" and quiet: "\<forall>j<m. quietTick e l d ?tr j" and
        out: "m = n \<and>
          getIPV6GatewayIPFromRoutes_from e l deviceName maxTicks d (numTicks + 1) ?tr =
            (Inl (gatewayNotFound deviceName),
             ?tr @ gatewayTicks l d m)
        \<or> m < n \<and>
          (\<exists>err. RouteList (netLink e) (?tr @ gatewayTicks l d m) l FAMILY_V6 = Inl err \<and>
             getIPV6GatewayIPFromRoutes_from e l deviceName maxTicks d (numTicks + 1) ?tr =
               (Inl (routesUnavailable err deviceName),
                ?tr @ gatewayTicks l d m @ [EvRouteList l FAMILY_V6]))
        \<or> m < n \<and>
          (\<exists>routes r. RouteList (netLink e) (?tr @ gatewayTicks l d m) l FAMILY_V6 = Inr routes \<and>
             find isDefaultRoute routes = Some r \<and>
             getIPV6GatewayIPFromRoutes_from e l deviceName maxTicks d (numTicks + 1) ?tr =
               (Inr (IP_String (Gw r)), ?tr @ gatewayTicks l d m @ [EvRouteList l FAMILY_V6]))"
        by blast
      have quiet': "\<forall>j<Suc m. quietTick e l d tr j"
      proof (intro allI impI)
        fix j assume "j < Suc m"
        then show "quietTick e l d tr j"
          using q0 quiet by (cases j) (simp_all add: quietTick_shift)
      qed
      have app: "?tr @ gatewayTicks l d m = tr @ gatewayTicks l d (Suc m)"
        by (simp add: gatewayTicks_Suc)
      have app2: "?tr @ gatewayTicks l d m @ [EvRouteList l FAMILY_V6]
              = tr @ gatewayTicks l d (Suc m) @ [EvRouteList l FAMILY_V6]"
        by (simp add: gatewayTicks_Suc)
      from out show ?thesis
        unfolding app app2 step [symmetric]
        using m quiet' by (intro exI [of _ "Suc m"]) auto
    qed
  qed
qed

lemma quietTick_cases:
  "quietTick e l d tr j \<Longrightarrow>
     \<exists>routes. RouteList (netLink e) (tr @ gatewayTicks l d j) l FAMILY_V6 = Inr routes
       \<and> find isDefaultRoute routes = None"
  by (auto simp: quietTick_def split: sum.splits)

lemma length_gatewayTicks: "length (gatewayTicks l d k) = 2 * k"
  by (induction k) (simp_all add: gatewayTicks_0 gatewayTicks_Suc)

lemma count_RouteList_gatewayTicks:
  "length (filter (\<lambda>ev. ev = EvRouteList l FAMILY_V6) (gatewayTicks l d k)) = k"
  by (induction k) (simp_all add: gatewayTicks_0 gatewayTicks_Suc)

lemma count_Sleep_gatewayTicks:
  "length (filter (\<lambda>ev. ev = EvSleep d) (gatewayTicks l d k)) = k"
  by (induction k) (simp_all add: gatewayTicks_0 gatewayTicks_Suc)

lemma poll_cases:
  obtains m where "m \<le> nat maxTicks" "\<forall>j<m. quietTick e l d tr j"
    "m = nat maxTicks \<and>
        getIPV6GatewayIPFromRoutes e l deviceName maxTicks d tr =
          (Inl (gatewayNotFound deviceName),
           tr @ gatewayTicks l d m)
      \<or> m < nat maxTicks \<and>
        (\<exists>err. RouteList (netLink e) (tr @ gatewayTicks l d m) l FAMILY_V6 = Inl err \<and>
           getIPV6GatewayIPFromRoutes e l deviceName maxTicks d tr =
             (Inl (routesUnavailable err deviceName),
              tr @ gatewayTicks l d m @ [EvRouteList l FAMILY_V6]))
      \<or> m < nat maxTicks \<and>
        (\<exists>routes r. RouteList (netLink e) (tr @ gatewayTicks l d m) l FAMILY_V6 = Inr routes \<and>
           find isDefaultRoute routes = Some r \<and>
           getIPV6GatewayIPFromRoutes e l deviceName maxTicks d tr =
             (Inr (IP_String (Gw r)), tr @ gatewayTicks l d m @ [EvRouteList l FAMILY_V6]))"
proof -
  have "nat (maxTicks - 0) = nat maxTicks" by simp
  from poll_outcome_from [OF this, of e l d tr deviceName] that show thesis
    unfolding getIPV6GatewayIPFromRoutes_def by blast
qed

lemma poll_stops_at:
  assumes k: "int k < maxTicks" and quiet: "\<forall>j<k. quietTick e l d tr j"
    and nq: "\<not> quietTick e l d tr k"
  shows "(\<exists>err. RouteList (netLink e) (tr @ gatewayTicks l d k) l FAMILY_V6 = Inl err \<and>
           getIPV6GatewayIPFromRoutes e l deviceName maxTicks d tr =
             (Inl (routesUnavailable err deviceName),
              tr @ gatewayTicks l d k @ [EvRouteList l FAMILY_V6]))
      \<or> (\<exists>routes r. RouteList (netLink e) (tr @ gatewayTicks l d k) l FAMILY_V6 = Inr routes \<and>
           find isDefaultRoute routes = Some r \<and>
           getIPV6GatewayIPFromRoutes e l deviceName maxTicks d tr =
             (Inr (IP_String (Gw r)), tr @ gatewayTicks l d k @ [EvRouteList l FAMILY_V6]))"
proof -
  obtain m where m: "m \<le> nat maxTicks" and qm: "\<forall>j<m. quietTick e l d tr j" and
    out: "m = nat maxTicks \<and>
        getIPV6GatewayIPFromRoutes e l deviceName maxTicks d tr =
          (Inl (gatewayNotFound deviceName),
           tr @ gatewayTicks l d m)
      \<or> m < nat maxTicks \<and>
        (\<exists>err. RouteList (netLink e) (tr @ gatewayTicks l d m) l FAMILY_V6 = Inl err \<and>
           getIPV6GatewayIPFromRoutes e l deviceName maxTicks d tr =
             (Inl (routesUnavailable err deviceName),
              tr @ gatewayTicks l d m @ [EvRouteList l FAMILY_V6]))
      \<or> m < nat maxTicks \<and>
        (\<exists>routes r. RouteList (netLink e) (tr @ gatewayTicks l d m) l FAMILY_V6 = Inr routes \<and>
           find isDefaultRoute routes = Some r \<and>
           getIPV6GatewayIPFromRoutes e l deviceName maxTicks d tr =
             (Inr (IP_String (Gw r)), tr @ gatewayTicks l d m @ [EvRouteList l FAMILY_V6]))"
    by (rule poll_cases [of maxTicks e l d tr deviceName])
  have "\<not> k < m" using qm nq by blast
  moreover have "\<not> m < k"
  proof
    assume "m < k"
    with quiet have "quietTick e l d tr m" by simp
    from quietTick_cases [OF this] out \<open>m < k\<close> k show False by auto
  qed
  ultimately have "m = k" by simp
  moreover have "k < nat maxTicks" using k by simp
  ultimately show ?thesis using out by simp
qed

text \<open>
  Claim C1, as amended. When no tick finds a default route, \<open>getIPV6GatewayIPFromRoutes\<close>
  lists the routes exactly \<open>maxTicks\<close> times (not at all when \<open>maxTicks\<close> is not
  positive), sleeps the tick interval after every listing, the last one included, and
  then fails with the error that names the device.
\<close>

theorem getIPV6GatewayIPFromRoutes_no_default_route:
  assumes quiet: "\<forall>j < nat maxTicks. quietTick e l d tr j"
  shows "getIPV6GatewayIPFromRoutes e l deviceName maxTicks d tr =
           (Inl (gatewayNotFound deviceName),
            tr @ gatewayTicks l d (nat maxTicks))
       \<and> length (filter (\<lambda>ev. ev = EvRouteList l FAMILY_V6) (gatewayTicks l d (nat maxTicks))) = nat maxTicks
       \<and> length (filter (\<lambda>ev. ev = EvSleep d) (gatewayTicks l d (nat maxTicks))) = nat maxTicks"
proof -
  have "nat (maxTicks - 0) = nat maxTicks" by simp
  from poll_outcome_from [OF this, of e l d tr deviceName] obtain m where
    m: "m \<le> nat maxTicks" and
    out: "m = nat maxTicks \<and>
        getIPV6GatewayIPFromRoutes_from e l deviceName maxTicks d 0 tr =
          (Inl (gatewayNotFound deviceName),
           tr @ gatewayTicks l d m)
      \<or> m < nat maxTicks \<and>
        (\<exists>err. RouteList (netLink e) (tr @ gatewayTicks l d m) l FAMILY_V6 = Inl err)
      \<or> m < nat maxTicks \<and>
        (\<exists>routes r. RouteList (netLink e) (tr @ gatewayTicks l d m) l FAMILY_V6 = Inr routes \<and>
           find isDefaultRoute routes = Some r)"
    by blast
  have "m = nat maxTicks"
  proof (rule ccontr)
    assume "m \<noteq> nat maxTicks"
    with m have lt: "m < nat maxTicks" by simp
    with quiet have "quietTick e l d tr m" by simp
    from quietTick_cases [OF this] out lt show False by auto
  qed
  with out have "getIPV6GatewayIPFromRoutes e l deviceName maxTicks d tr =
           (Inl (gatewayNotFound deviceName),
            tr @ gatewayTicks l d (nat maxTicks))"
    by (auto simp: getIPV6GatewayIPFromRoutes_def)
  then show ?thesis
    by (simp add: count_RouteList_gatewayTicks count_Sleep_gatewayTicks)
qed

theorem getIPV6GatewayIPFromRoutes_no_default_route_witness:
  "quietTick (pollingEngine [Inr [], Inr [prefixRoute], Inr [emptyDstRoute]]) (Link 2 ''eth1'') time_Second [] 0
   \<and> quietTick (pollingEngine [Inr [], Inr [prefixRoute], Inr [emptyDstRoute]]) (Link 2 ''eth1'') time_Second [] 1
   \<and> quietTick (pollingEngine [Inr [], Inr [prefixRoute], Inr [emptyDstRoute]]) (Link 2 ''eth1'') time_Second [] 2
   \<and> getIPV6GatewayIPFromRoutes (pollingEngine [Inr [], Inr [prefixRoute], Inr [emptyDstRoute]])
        (Link 2 ''eth1'') ''eth1'' 3 time_Second [] =
       (Inl (gatewayNotFound ''eth1''),
        [EvRouteList (Link 2 ''eth1'') FAMILY_V6, EvSleep time_Second,
         EvRouteList (Link 2 ''eth1'') FAMILY_V6, EvSleep time_Second,
         EvRouteList (Link 2 ''eth1'') FAMILY_V6, EvSleep time_Second])"
proof -
  let ?e = "pollingEngine [Inr [], Inr [prefixRoute], Inr [emptyDstRoute]]"
  let ?l = "Link 2 ''eth1''"
  have q0: "quietTick ?e ?l time_Second [] 0" by code_simp
  have q1: "quietTick ?e ?l time_Second [] 1" by code_simp
  have q2: "quietTick ?e ?l time_Second [] 2" by code_simp
  have q: "\<forall>j < nat 3. quietTick ?e ?l time_Second [] j"
  proof (intro allI impI)
    fix j :: nat assume "j < nat 3"
    then have "j = 0 \<or> j = 1 \<or> j = 2" by auto
    with q0 q1 q2 show "quietTick ?e ?l time_Second [] j" by auto
  qed
  have t: "gatewayTicks ?l time_Second (nat 3) =
        [EvRouteList ?l FAMILY_V6, EvSleep time_Second,
         EvRouteList ?l FAMILY_V6, EvSleep time_Second,
         EvRouteList ?l FAMILY_V6, EvSleep time_Second]"
    by code_simp
  from getIPV6GatewayIPFromRoutes_no_default_route [OF q, of "''eth1''"] q0 q1 q2
  show ?thesis unfolding t by simp
qed

text \<open>
  Two quiet ticks with \<open>maxTicks = 2\<close>: the poll sleeps after the second, final listing,
  so that the last event before the failure is a sleep.
\<close>

theorem sleep_after_final_attempt:
  "quietTick (pollingEngine [Inr [], Inr []]) (Link 2 ''eth1'') time_Second [] 0
   \<and> quietTick (pollingEngine [Inr [], Inr []]) (Link 2 ''eth1'') time_Second [] 1
   \<and> getIPV6GatewayIPFromRoutes (pollingEngine [Inr [], Inr []]) (Link 2 ''eth1'') ''eth1'' 2 time_Second [] =
       (Inl (gatewayNotFound ''eth1''),
        [EvRouteList (Link 2 ''eth1'') FAMILY_V6, EvSleep time_Second,
         EvRouteList (Link 2 ''eth1'') FAMILY_V6, EvSleep time_Second])
   \<and> last (snd (getIPV6GatewayIPFromRoutes (pollingEngine [Inr [], Inr []]) (Link 2 ''eth1'') ''eth1'' 2
                   time_Second [])) = EvSleep time_Second"
  by code_simp

text \<open>
  Claim C5. On a tick the scan returns the gateway of the first listed route that has no
  destination prefix, no source address and a gateway address that is not empty, and
  reports no match when there is no such route. When the ticks before tick \<open>k\<close> are
  quiet and tick \<open>k\<close> lists such a route, the poll returns the string form of its
  gateway right after that listing: the trace ends with the listing, with no sleep and
  no tick after it.
\<close>

theorem default_route_returns_at_once:
  "getIPV6GatewayIPFromRoutesOnce e l deviceName tr =
     (case RouteList (netLink e) tr l FAMILY_V6 of
        Inl err \<Rightarrow>
          (([], False,
            Some (routesUnavailable err deviceName)),
           tr @ [EvRouteList l FAMILY_V6])
      | Inr routes \<Rightarrow>
          (case find isDefaultRoute routes of
             None \<Rightarrow> (([], False, None), tr @ [EvRouteList l FAMILY_V6])
           | Some r \<Rightarrow> ((IP_String (Gw r), True, None), tr @ [EvRouteList l FAMILY_V6])))
   \<and> (int k < maxTicks \<longrightarrow> (\<forall>j<k. quietTick e l d tr j) \<longrightarrow>
        RouteList (netLink e) (tr @ gatewayTicks l d k) l FAMILY_V6 = Inr routes \<longrightarrow>
        find isDefaultRoute routes = Some r \<longrightarrow>
        getIPV6GatewayIPFromRoutes e l deviceName maxTicks d tr =
          (Inr (IP_String (Gw r)), tr @ gatewayTicks l d k @ [EvRouteList l FAMILY_V6]))"
proof (intro conjI impI)
  show "getIPV6GatewayIPFromRoutesOnce e l deviceName tr =
     (case RouteList (netLink e) tr l FAMILY_V6 of
        Inl err \<Rightarrow>
          (([], False,
            Some (routesUnavailable err deviceName)),
           tr @ [EvRouteList l FAMILY_V6])
      | Inr routes \<Rightarrow>
          (case find isDefaultRoute routes of
             None \<Rightarrow> (([], False, None), tr @ [EvRouteList l FAMILY_V6])
           | Some r \<Rightarrow> ((IP_String (Gw r), True, None), tr @ [EvRouteList l FAMILY_V6])))"
    by (simp add: getIPV6GatewayIPFromRoutesOnce_def scanRoutes_find routesUnavailable_def
         split: sum.split option.split)
next
  assume k: "int k < maxTicks" and quiet: "\<forall>j<k. quietTick e l d tr j"
    and rl: "RouteList (netLink e) (tr @ gatewayTicks l d k) l FAMILY_V6 = Inr routes"
    and f: "find isDefaultRoute routes = Some r"
  from rl f have "\<not> quietTick e l d tr k" by (simp add: quietTick_def)
  from poll_stops_at [OF k quiet this, of deviceName] rl f
  show "getIPV6GatewayIPFromRoutes e l deviceName maxTicks d tr =
          (Inr (IP_String (Gw r)), tr @ gatewayTicks l d k @ [EvRouteList l FAMILY_V6])"
    by auto
qed

theorem default_route_returns_at_once_witness:
  "quietTick (pollingEngine [Inr [prefixRoute], Inr [emptyDstRoute, defaultRoute, prefixRoute]])
     (Link 2 ''eth1'') time_Second [] 0
   \<and> find isDefaultRoute [emptyDstRoute, defaultRoute, prefixRoute] = Some defaultRoute
   \<and> getIPV6GatewayIPFromRoutes (pollingEngine [Inr [prefixRoute], Inr [emptyDstRoute, defaultRoute, prefixRoute]])
        (Link 2 ''eth1'') ''eth1'' 10 time_Second [] =
       (Inr ''fe80::1'',
        [EvRouteList (Link 2 ''eth1'') FAMILY_V6, EvSleep time_Second,
         EvRouteList (Link 2 ''eth1'') FAMILY_V6])"
proof -
  let ?e = "pollingEngine [Inr [prefixRoute], Inr [emptyDstRoute, defaultRoute, prefixRoute]]"
  let ?l = "Link 2 ''eth1''"
  have k: "int 1 < 10" by simp
  have q0: "quietTick ?e ?l time_Second [] 0" by code_simp
  then have q: "\<forall>j<1. quietTick ?e ?l time_Second [] j" by simp
  have rl: "RouteList (netLink ?e) ([] @ gatewayTicks ?l time_Second 1) ?l FAMILY_V6
              = Inr [emptyDstRoute, defaultRoute, prefixRoute]"
    by code_simp
  have f: "find isDefaultRoute [emptyDstRoute, defaultRoute, prefixRoute] = Some defaultRoute"
    by code_simp
  have g: "IP_String (Gw defaultRoute) = ''fe80::1''" by code_simp
  have t: "[] @ gatewayTicks ?l time_Second 1 @ [EvRouteList ?l FAMILY_V6] =
        [EvRouteList ?l FAMILY_V6, EvSleep time_Second, EvRouteList ?l FAMILY_V6]"
    by code_simp
  from default_route_returns_at_once [of ?e ?l "''eth1''" "[]" 1 10 time_Second
        "[emptyDstRoute, defaultRoute, prefixRoute]" defaultRoute] k q rl f
  have "getIPV6GatewayIPFromRoutes ?e ?l ''eth1'' 10 time_Second [] =
          (Inr (IP_String (Gw defaultRoute)), [] @ gatewayTicks ?l time_Second 1 @ [EvRouteList ?l FAMILY_V6])"
    by blast
  with q0 f show ?thesis unfolding g t by simp
qed

text \<open>
  Claim C6. When the ticks before tick \<open>k\<close> are quiet and the listing of tick \<open>k\<close> fails,
  the poll returns that error, wrapped, right after the failed listing: no sleep and no
  tick follow. A listing is followed by a sleep only on a quiet tick, one whose listing
  succeeds and holds no default route.
\<close>

theorem route_list_failure_aborts:
  "(int k < maxTicks \<longrightarrow> (\<forall>j<k. quietTick e l d tr j) \<longrightarrow>
      RouteList (netLink e) (tr @ gatewayTicks l d k) l FAMILY_V6 = Inl err \<longrightarrow>
      getIPV6GatewayIPFromRoutes e l deviceName maxTicks d tr =
        (Inl (routesUnavailable err deviceName),
         tr @ gatewayTicks l d k @ [EvRouteList l FAMILY_V6]))
   \<and> (prefix (tr @ gatewayTicks l d j @ [EvRouteList l FAMILY_V6, EvSleep d])
          (snd (getIPV6GatewayIPFromRoutes e l deviceName maxTicks d tr))
        \<longrightarrow> quietTick e l d tr j)"
proof (intro conjI impI)
  assume k: "int k < maxTicks" and quiet: "\<forall>j<k. quietTick e l d tr j"
    and rl: "RouteList (netLink e) (tr @ gatewayTicks l d k) l FAMILY_V6 = Inl err"
  from rl have "\<not> quietTick e l d tr k" by (simp add: quietTick_def)
  from poll_stops_at [OF k quiet this, of deviceName] rl
  show "getIPV6GatewayIPFromRoutes e l deviceName maxTicks d tr =
        (Inl (routesUnavailable err deviceName),
         tr @ gatewayTicks l d k @ [EvRouteList l FAMILY_V6])"
    by auto
next
  assume pre: "prefix (tr @ gatewayTicks l d j @ [EvRouteList l FAMILY_V6, EvSleep d])
          (snd (getIPV6GatewayIPFromRoutes e l deviceName maxTicks d tr))"
  obtain m rest where qm: "\<forall>j<m. quietTick e l d tr j" and
    len: "length rest \<le> 1" and
    tr: "snd (getIPV6GatewayIPFromRoutes e l deviceName maxTicks d tr) = tr @ gatewayTicks l d m @ rest"
  proof (rule poll_cases [of maxTicks e l d tr deviceName])
    fix m
    assume "\<forall>j<m. quietTick e l d tr j" and
      "m = nat maxTicks \<and>
        getIPV6GatewayIPFromRoutes e l deviceName maxTicks d tr =
          (Inl (gatewayNotFound deviceName),
           tr @ gatewayTicks l d m)
      \<or> m < nat maxTicks \<and>
        (\<exists>err. RouteList (netLink e) (tr @ gatewayTicks l d m) l FAMILY_V6 = Inl err \<and>
           getIPV6GatewayIPFromRoutes e l deviceName maxTicks d tr =
             (Inl (routesUnavailable err deviceName),
              tr @ gatewayTicks l d m @ [EvRouteList l FAMILY_V6]))
      \<or> m < nat maxTicks \<and>
        (\<exists>routes r. RouteList (netLink e) (tr @ gatewayTicks l d m) l FAMILY_V6 = Inr routes \<and>
           find isDefaultRoute routes = Some r \<and>
           getIPV6GatewayIPFromRoutes e l deviceName maxTicks d tr =
             (Inr (IP_String (Gw r)), tr @ gatewayTicks l d m @ [EvRouteList l FAMILY_V6]))"
    then show thesis
      using that [of m "[]"] that [of m "[EvRouteList l FAMILY_V6]"] by auto
  qed
  from pre tr have "length (tr @ gatewayTicks l d j @ [EvRouteList l FAMILY_V6, EvSleep d])
      \<le> length (tr @ gatewayTicks l d m @ rest)"
    by (simp only: prefix_length_le)
  with len have "j < m" by (simp add: length_gatewayTicks)
  with qm show "quietTick e l d tr j" by simp
qed

theorem route_list_failure_aborts_witness:
  "quietTick (pollingEngine [Inr [prefixRoute], Inl (External ''netlink: dump interrupted''), Inr [defaultRoute]])
     (Link 2 ''eth1'') time_Second [] 0
   \<and> getIPV6GatewayIPFromRoutes
        (pollingEngine [Inr [prefixRoute], Inl (External ''netlink: dump interrupted''), Inr [defaultRoute]])
        (Link 2 ''eth1'') ''eth1'' 10 time_Second [] =
       (Inl (routesUnavailable (External ''netlink: dump interrupted'') ''eth1''),
        [EvRouteList (Link 2 ''eth1'') FAMILY_V6, EvSleep time_Second,
         EvRouteList (Link 2 ''eth1'') FAMILY_V6])"
proof -
  let ?e = "pollingEngine [Inr [prefixRoute], Inl (External ''netlink: dump interrupted''), Inr [defaultRoute]]"
  let ?l = "Link 2 ''eth1''"
  have k: "int 1 < 10" by simp
  have q0: "quietTick ?e ?l time_Second [] 0" by code_simp
  then have q: "\<forall>j<1. quietTick ?e ?l time_Second [] j" by simp
  have rl: "RouteList (netLink ?e) ([] @ gatewayTicks ?l time_Second 1) ?l FAMILY_V6
              = Inl (External ''netlink: dump interrupted'')"
    by code_simp
  have t: "[] @ gatewayTicks ?l time_Second 1 @ [EvRouteList ?l FAMILY_V6] =
        [EvRouteList ?l FAMILY_V6, EvSleep time_Second, EvRouteList ?l FAMILY_V6]"
    by code_simp
  have t0: "[] @ gatewayTicks ?l time_Second 0 @ [EvRouteList ?l FAMILY_V6, EvSleep time_Second] =
        [EvRouteList ?l FAMILY_V6, EvSleep time_Second]"
    by code_simp
  note inst = route_list_failure_aborts [of 1 10 ?e ?l time_Second "[]"
        "External ''netlink: dump interrupted''" "''eth1''" 0]
  from inst k q rl
  have res: "getIPV6GatewayIPFromRoutes ?e ?l ''eth1'' 10 time_Second [] =
        (Inl (routesUnavailable (External ''netlink: dump interrupted'') ''eth1''),
         [] @ gatewayTicks ?l time_Second 1 @ [EvRouteList ?l FAMILY_V6])"
    by blast
  have "prefix ([] @ gatewayTicks ?l time_Second 0 @ [EvRouteList ?l FAMILY_V6, EvSleep time_Second])
          (snd (getIPV6GatewayIPFromRoutes ?e ?l ''eth1'' 10 time_Second []))"
    unfolding res t t0 by simp
  with inst have "quietTick ?e ?l time_Second [] 0" by blast
  with res show ?thesis unfolding t by simp
qed

subsection \<open>The retried query of the addresses\<close>

lemma queryRounds_0: "queryRounds path d 0 = []"
  by (simp add: queryRounds_def)

lemma queryRounds_Suc:
  "queryRounds path d (Suc k) = [EvGetMetadata path, EvSleep d] @ queryRounds path d k"
  by (simp add: queryRounds_def)

lemma failedAttempt_shift:
  "failedAttempt e path (tr @ [EvGetMetadata path, EvSleep (metadataDurationBetweenRetries e)]) j
     = failedAttempt e path tr (Suc j)"
  by (simp add: failedAttempt_def queryRounds_Suc)

lemma failedAttempt_cases:
  "failedAttempt e path tr j \<Longrightarrow>
     \<exists>err. GetMetadata (metadata e) (tr @ queryRounds path (metadataDurationBetweenRetries e) j) path = Inl err"
  by (auto simp: failedAttempt_def split: sum.splits)

lemma query_outcome_from:
  "nat (metadataMaxRetryCount e - attempts) = n \<Longrightarrow>
   \<exists>m\<le>n. (\<forall>j<m. failedAttempt e path tr j) \<and>
     ((\<exists>response.
         GetMetadata (metadata e) (tr @ queryRounds path (metadataDurationBetweenRetries e) m) path
           = Inr response \<and>
         queryAddresses e path attempts tr =
           (Inr response,
            tr @ queryRounds path (metadataDurationBetweenRetries e) m @ [EvGetMetadata path]))
      \<or> m = n \<and>
        (\<exists>err.
           GetMetadata (metadata e) (tr @ queryRounds path (metadataDurationBetweenRetries e) m) path
             = Inl err \<and>
           queryAddresses e path attempts tr =
             (Inl err,
              tr @ queryRounds path (metadataDurationBetweenRetries e) m @ [EvGetMetadata path])))"
proof (induction n arbitrary: attempts tr)
  case 0
  then have ge: "attempts \<ge> metadataMaxRetryCount e" by simp
  show ?case
  proof (cases "GetMetadata (metadata e) tr path")
    case (Inl err)
    with ge show ?thesis
      by (subst queryAddresses.simps) (simp add: queryRounds_0)
  next
    case (Inr response)
    then show ?thesis
      by (subst queryAddresses.simps) (simp add: queryRounds_0)
  qed
next
  case (Suc n)
  then have lt: "\<not> attempts \<ge> metadataMaxRetryCount e" by simp
  let ?d = "metadataDurationBetweenRetries e"
  show ?case
  proof (cases "GetMetadata (metadata e) tr path")
    case (Inr response)
    then have "queryAddresses e path attempts tr = (Inr response, tr @ [EvGetMetadata path])"
      by (subst queryAddresses.simps) simp
    with Inr show ?thesis
      by (intro exI [of _ 0]) (simp add: queryRounds_0)
  next
    case (Inl err)
    let ?tr = "tr @ [EvGetMetadata path, EvSleep ?d]"
    have step: "queryAddresses e path attempts tr = queryAddresses e path (attempts + 1) ?tr"
      using lt Inl by (subst queryAddresses.simps) simp
    have f0: "failedAttempt e path tr 0"
      using Inl by (simp add: failedAttempt_def queryRounds_0)
    have "nat (metadataMaxRetryCount e - (attempts + 1)) = n" using Suc.prems by simp
    from Suc.IH [OF this, of ?tr] obtain m where
      m: "m \<le> n" and failed: "\<forall>j<m. failedAttempt e path ?tr j" and
      out: "(\<exists>response.
         GetMetadata (metadata e) (?tr @ queryRounds path ?d m) path = Inr response \<and>
         queryAddresses e path (attempts + 1) ?tr =
           (Inr response, ?tr @ queryRounds path ?d m @ [EvGetMetadata path]))
      \<or> m = n \<and>
        (\<exists>err.
           GetMetadata (metadata e) (?tr @ queryRounds path ?d m) path = Inl err \<and>
           queryAddresses e path (attempts + 1) ?tr =
             (Inl err, ?tr @ queryRounds path ?d m @ [EvGetMetadata path]))"
      by blast
    have failed': "\<forall>j<Suc m. failedAttempt e path tr j"
    proof (intro allI impI)
      fix j assume "j < Suc m"
      then show "failedAttempt e path tr j"
        using f0 failed by (cases j) (simp_all add: failedAttempt_shift)
    qed
    have app: "?tr @ queryRounds path ?d m = tr @ queryRounds path ?d (Suc m)"
      by (simp add: queryRounds_Suc)
    have app2: "?tr @ queryRounds path ?d m @ [EvGetMetadata path]
            = tr @ queryRounds path ?d (Suc m) @ [EvGetMetadata path]"
      by (simp add: queryRounds_Suc)
    from out show ?thesis
      unfolding app app2 step [symmetric]
      using m failed' by (intro exI [of _ "Suc m"]) auto
  qed
qed

lemma containsAddress_iff: "containsAddress addresses addressToFind \<longleftrightarrow> addressToFind \<in> set addresses"
  by (induction addresses) auto

lemma doesMACAddressMapToIPAddress_cases:
  assumes pos: "1 \<le> metadataMaxRetryCount e"
  obtains m where "m < nat (metadataMaxRetryCount e)"
    "\<forall>j<m. failedAttempt e (addressesPath macAddress metatdataPathSuffix) tr j"
    "(\<exists>response.
         GetMetadata (metadata e)
           (tr @ queryRounds (addressesPath macAddress metatdataPathSuffix) (metadataDurationBetweenRetries e) m)
           (addressesPath macAddress metatdataPathSuffix) = Inr response \<and>
         doesMACAddressMapToIPAddress e macAddress addressToFind metatdataPathSuffix tr =
           (Inr (addressToFind \<in> set (strings_Split response CHR 0x0A)),
            tr @ queryRounds (addressesPath macAddress metatdataPathSuffix) (metadataDurationBetweenRetries e) m
               @ [EvGetMetadata (addressesPath macAddress metatdataPathSuffix)]))
      \<or> Suc m = nat (metadataMaxRetryCount e) \<and>
        (\<exists>err.
           GetMetadata (metadata e)
             (tr @ queryRounds (addressesPath macAddress metatdataPathSuffix) (metadataDurationBetweenRetries e) m)
             (addressesPath macAddress metatdataPathSuffix) = Inl err \<and>
           doesMACAddressMapToIPAddress e macAddress addressToFind metatdataPathSuffix tr =
             (Inl (queryFailed err (addressesPath macAddress metatdataPathSuffix)),
              tr @ queryRounds (addressesPath macAddress metatdataPathSuffix) (metadataDurationBetweenRetries e) m
                 @ [EvGetMetadata (addressesPath macAddress metatdataPathSuffix)]))"
proof -
  let ?path = "addressesPath macAddress metatdataPathSuffix"
  from query_outcome_from [OF refl, of e 1 ?path tr] obtain m where
    m: "m \<le> nat (metadataMaxRetryCount e - 1)" and f: "\<forall>j<m. failedAttempt e ?path tr j" and
    out: "(\<exists>response.
         GetMetadata (metadata e) (tr @ queryRounds ?path (metadataDurationBetweenRetries e) m) ?path
           = Inr response \<and>
         queryAddresses e ?path 1 tr =
           (Inr response, tr @ queryRounds ?path (metadataDurationBetweenRetries e) m @ [EvGetMetadata ?path]))
      \<or> m = nat (metadataMaxRetryCount e - 1) \<and>
        (\<exists>err.
           GetMetadata (metadata e) (tr @ queryRounds ?path (metadataDurationBetweenRetries e) m) ?path
             = Inl err \<and>
           queryAddresses e ?path 1 tr =
             (Inl err, tr @ queryRounds ?path (metadataDurationBetweenRetries e) m @ [EvGetMetadata ?path]))"
    by blast
  have m': "m < nat (metadataMaxRetryCount e)" using m pos by simp
  have eq: "m = nat (metadataMaxRetryCount e - 1) \<longleftrightarrow> Suc m = nat (metadataMaxRetryCount e)"
    using pos by auto
  from out have "(\<exists>response.
         GetMetadata (metadata e) (tr @ queryRounds ?path (metadataDurationBetweenRetries e) m) ?path
           = Inr response \<and>
         doesMACAddressMapToIPAddress e macAddress addressToFind metatdataPathSuffix tr =
           (Inr (addressToFind \<in> set (strings_Split response CHR 0x0A)),
            tr @ queryRounds ?path (metadataDurationBetweenRetries e) m @ [EvGetMetadata ?path]))
      \<or> Suc m = nat (metadataMaxRetryCount e) \<and>
        (\<exists>err.
           GetMetadata (metadata e) (tr @ queryRounds ?path (metadataDurationBetweenRetries e) m) ?path
             = Inl err \<and>
           doesMACAddressMapToIPAddress e macAddress addressToFind metatdataPathSuffix tr =
             (Inl (queryFailed err ?path),
              tr @ queryRounds ?path (metadataDurationBetweenRetries e) m @ [EvGetMetadata ?path]))"
    unfolding eq
    by (auto simp: doesMACAddressMapToIPAddress_def queryFailed_def containsAddress_iff)
  with m' f that show thesis by blast
qed

text \<open>
  Claim C3. With a maximum attempt count of at least one (20 by default),
  \<open>doesMACAddressMapToIPAddress\<close> queries the path of the MAC address and the suffix
  again after a failed query, sleeping between the attempts. When attempt \<open>k\<close>, up to
  the last permitted one, is the first to answer, the result is whether the address is
  one of the lines of the response, where the lines joined by newlines give back the
  response and hold no newline. When all attempts fail, the result is the error of the
  last attempt, wrapped, and no sleep follows the last attempt. A failure means that all
  attempts failed.
\<close>

theorem doesMACAddressMapToIPAddress_retries:
  assumes pos: "1 \<le> metadataMaxRetryCount e"
  shows
    "(k < nat (metadataMaxRetryCount e) \<longrightarrow>
      (\<forall>j<k. failedAttempt e (addressesPath macAddress metatdataPathSuffix) tr j) \<longrightarrow>
      GetMetadata (metadata e)
        (tr @ queryRounds (addressesPath macAddress metatdataPathSuffix) (metadataDurationBetweenRetries e) k)
        (addressesPath macAddress metatdataPathSuffix) = Inr response \<longrightarrow>
      doesMACAddressMapToIPAddress e macAddress addressToFind metatdataPathSuffix tr =
        (Inr (addressToFind \<in> set (strings_Split response CHR 0x0A)),
         tr @ queryRounds (addressesPath macAddress metatdataPathSuffix) (metadataDurationBetweenRetries e) k
            @ [EvGetMetadata (addressesPath macAddress metatdataPathSuffix)]))
   \<and> ((\<forall>j < nat (metadataMaxRetryCount e). failedAttempt e (addressesPath macAddress metatdataPathSuffix) tr j) \<longrightarrow>
      GetMetadata (metadata e)
        (tr @ queryRounds (addressesPath macAddress metatdataPathSuffix) (metadataDurationBetweenRetries e)
                (nat (metadataMaxRetryCount e) - 1))
        (addressesPath macAddress metatdataPathSuffix) = Inl err \<longrightarrow>
      doesMACAddressMapToIPAddress e macAddress addressToFind metatdataPathSuffix tr =
        (Inl (queryFailed err (addressesPath macAddress metatdataPathSuffix)),
         tr @ queryRounds (addressesPath macAddress metatdataPathSuffix) (metadataDurationBetweenRetries e)
                (nat (metadataMaxRetryCount e) - 1)
            @ [EvGetMetadata (addressesPath macAddress metatdataPathSuffix)]))
   \<and> (fst (doesMACAddressMapToIPAddress e macAddress addressToFind metatdataPathSuffix tr) = Inl failure \<longrightarrow>
      (\<forall>j < nat (metadataMaxRetryCount e). failedAttempt e (addressesPath macAddress metatdataPathSuffix) tr j))
   \<and> joinWith CHR 0x0A (strings_Split response CHR 0x0A) = response
   \<and> list_all (\<lambda>line. CHR 0x0A \<notin> set line) (strings_Split response CHR 0x0A)
   \<and> metadataMaxRetryCount (create md nl nsw) = 20"
proof (intro conjI impI)
  let ?path = "addressesPath macAddress metatdataPathSuffix"
  let ?d = "metadataDurationBetweenRetries e"
  let ?N = "nat (metadataMaxRetryCount e)"
  obtain m where m: "m < ?N" and f: "\<forall>j<m. failedAttempt e ?path tr j" and
    out: "(\<exists>response.
         GetMetadata (metadata e) (tr @ queryRounds ?path ?d m) ?path = Inr response \<and>
         doesMACAddressMapToIPAddress e macAddress addressToFind metatdataPathSuffix tr =
           (Inr (addressToFind \<in> set (strings_Split response CHR 0x0A)),
            tr @ queryRounds ?path ?d m @ [EvGetMetadata ?path]))
      \<or> Suc m = ?N \<and>
        (\<exists>err.
           GetMetadata (metadata e) (tr @ queryRounds ?path ?d m) ?path = Inl err \<and>
           doesMACAddressMapToIPAddress e macAddress addressToFind metatdataPathSuffix tr =
             (Inl (queryFailed err ?path), tr @ queryRounds ?path ?d m @ [EvGetMetadata ?path]))"
    by (rule doesMACAddressMapToIPAddress_cases [OF pos, of macAddress metatdataPathSuffix tr addressToFind])
  have not_failed: "\<not> failedAttempt e ?path tr i"
    if "GetMetadata (metadata e) (tr @ queryRounds ?path ?d i) ?path = Inr r" for i r
    using that by (simp add: failedAttempt_def)
  have is_failed: "failedAttempt e ?path tr i"
    if "GetMetadata (metadata e) (tr @ queryRounds ?path ?d i) ?path = Inl x" for i x
    using that by (simp add: failedAttempt_def)
  {
    assume k: "k < ?N" and fk: "\<forall>j<k. failedAttempt e ?path tr j"
      and ok: "GetMetadata (metadata e) (tr @ queryRounds ?path ?d k) ?path = Inr response"
    have "\<not> k < m" using f not_failed [OF ok] by blast
    moreover have "\<not> m < k"
    proof
      assume "m < k"
      with fk have "failedAttempt e ?path tr m" by simp
      from failedAttempt_cases [OF this] out \<open>m < k\<close> k show False by auto
    qed
    ultimately have "m = k" by simp
    with out ok show "doesMACAddressMapToIPAddress e macAddress addressToFind metatdataPathSuffix tr =
        (Inr (addressToFind \<in> set (strings_Split response CHR 0x0A)),
         tr @ queryRounds ?path ?d k @ [EvGetMetadata ?path])"
      by auto
  }
  {
    assume all: "\<forall>j < ?N. failedAttempt e ?path tr j"
      and last: "GetMetadata (metadata e) (tr @ queryRounds ?path ?d (?N - 1)) ?path = Inl err"
    from all m have "failedAttempt e ?path tr m" by simp
    from failedAttempt_cases [OF this] out have "Suc m = ?N" by auto
    then have "m = ?N - 1" by simp
    with out last show "doesMACAddressMapToIPAddress e macAddress addressToFind metatdataPathSuffix tr =
        (Inl (queryFailed err ?path), tr @ queryRounds ?path ?d (?N - 1) @ [EvGetMetadata ?path])"
      by auto
  }
  {
    assume fail: "fst (doesMACAddressMapToIPAddress e macAddress addressToFind metatdataPathSuffix tr) = Inl failure"
    with out obtain x where last: "Suc m = ?N"
      and x: "GetMetadata (metadata e) (tr @ queryRounds ?path ?d m) ?path = Inl x"
      by auto
    show "\<forall>j < ?N. failedAttempt e ?path tr j"
    proof (intro allI impI)
      fix j assume "j < ?N"
      with last have "j < m \<or> j = m" by auto
      with f is_failed [OF x] show "failedAttempt e ?path tr j" by auto
    qed
  }
  show "joinWith CHR 0x0A (strings_Split response CHR 0x0A) = response"
    by (rule strings_Split_join)
  show "list_all (\<lambda>line. CHR 0x0A \<notin> set line) (strings_Split response CHR 0x0A)"
    by (rule strings_Split_no_sep)
  show "metadataMaxRetryCount (create md nl nsw) = 20"
    by (simp add: create_def instanceMetadataMaxRetryCount_def)
qed


theorem doesMACAddressMapToIPAddress_retries_witness:
  "doesMACAddressMapToIPAddress
       (retryEngine [Inl (External ''timeout''), Inl (External ''not found''),
                     Inr ''10.0.0.5\<newline>10.0.0.6''])
       ''0a:1b:2c:3d:4e:5f'' ''10.0.0.6'' metadataNetworkInterfaceIPV4AddressesSuffix [] =
     (Inr True,
      [EvGetMetadata ''network/interfaces/macs/0a:1b:2c:3d:4e:5f/local-ipv4s'', EvSleep time_Second,
       EvGetMetadata ''network/interfaces/macs/0a:1b:2c:3d:4e:5f/local-ipv4s'', EvSleep time_Second,
       EvGetMetadata ''network/interfaces/macs/0a:1b:2c:3d:4e:5f/local-ipv4s''])
   \<and> doesMACAddressMapToIPAddress
       (retryEngine [Inl (External ''timeout''), Inl (External ''not found''), Inl (External ''refused'')])
       ''0a:1b:2c:3d:4e:5f'' ''10.0.0.6'' metadataNetworkInterfaceIPV4AddressesSuffix [] =
     (Inl (queryFailed (External ''refused'') ''network/interfaces/macs/0a:1b:2c:3d:4e:5f/local-ipv4s''),
      [EvGetMetadata ''network/interfaces/macs/0a:1b:2c:3d:4e:5f/local-ipv4s'', EvSleep time_Second,
       EvGetMetadata ''network/interfaces/macs/0a:1b:2c:3d:4e:5f/local-ipv4s'', EvSleep time_Second,
       EvGetMetadata ''network/interfaces/macs/0a:1b:2c:3d:4e:5f/local-ipv4s''])
   \<and> failedAttempt
       (retryEngine [Inl (External ''timeout''), Inl (External ''not found''), Inl (External ''refused'')])
       ''network/interfaces/macs/0a:1b:2c:3d:4e:5f/local-ipv4s'' [] 2"
proof -
  let ?ok = "retryEngine [Inl (External ''timeout''), Inl (External ''not found''),
                          Inr ''10.0.0.5\<newline>10.0.0.6'']"
  let ?bad = "retryEngine [Inl (External ''timeout''), Inl (External ''not found''), Inl (External ''refused'')]"
  let ?mac = "''0a:1b:2c:3d:4e:5f''"
  let ?sfx = "metadataNetworkInterfaceIPV4AddressesSuffix"
  let ?path = "''network/interfaces/macs/0a:1b:2c:3d:4e:5f/local-ipv4s''"
  let ?q = "EvGetMetadata ?path"
  have path: "addressesPath ?mac ?sfx = ?path" by code_simp
  have n: "metadataMaxRetryCount (retryEngine script) = 3" for script
    by (simp add: retryEngine_def)
  note n_ok = n and n_bad = n
  have d_ok: "metadataDurationBetweenRetries ?ok = time_Second"
    and d_bad: "metadataDurationBetweenRetries ?bad = time_Second"
    by (simp_all add: retryEngine_def create_def instanceMetadataDurationBetweenRetries_def)
  have r2: "queryRounds ?path time_Second 2 = [?q, EvSleep time_Second, ?q, EvSleep time_Second]"
    by (simp add: queryRounds_def numeral_2_eq_2)
  have pos_ok: "1 \<le> metadataMaxRetryCount ?ok" and pos_bad: "1 \<le> metadataMaxRetryCount ?bad"
    by (simp_all add: retryEngine_def)
  have ok0: "failedAttempt ?ok ?path [] 0" and ok1: "failedAttempt ?ok ?path [] 1"
    by code_simp+
  have bad0: "failedAttempt ?bad ?path [] 0" and bad1: "failedAttempt ?bad ?path [] 1"
    and bad2: "failedAttempt ?bad ?path [] 2"
    by code_simp+
  have ok_all: "\<forall>j<2. failedAttempt ?ok (addressesPath ?mac ?sfx) [] j"
  proof (intro allI impI)
    fix j :: nat assume "j < 2"
    then have "j = 0 \<or> j = 1" by auto
    with ok0 ok1 show "failedAttempt ?ok (addressesPath ?mac ?sfx) [] j" by (auto simp: path)
  qed
  have bad_all: "\<forall>j < nat (metadataMaxRetryCount ?bad). failedAttempt ?bad (addressesPath ?mac ?sfx) [] j"
  proof (intro allI impI)
    fix j :: nat assume "j < nat (metadataMaxRetryCount ?bad)"
    then have "j = 0 \<or> j = 1 \<or> j = 2" by (auto simp: n_bad)
    with bad0 bad1 bad2 show "failedAttempt ?bad (addressesPath ?mac ?sfx) [] j" by (auto simp: path)
  qed
  have ok2: "GetMetadata (metadata ?ok)
        ([] @ queryRounds (addressesPath ?mac ?sfx) (metadataDurationBetweenRetries ?ok) 2)
        (addressesPath ?mac ?sfx) = Inr ''10.0.0.5\<newline>10.0.0.6''"
    by code_simp
  have last_bad: "GetMetadata (metadata ?bad)
        ([] @ queryRounds (addressesPath ?mac ?sfx) (metadataDurationBetweenRetries ?bad)
                (nat (metadataMaxRetryCount ?bad) - 1))
        (addressesPath ?mac ?sfx) = Inl (External ''refused'')"
    by code_simp
  have mem: "''10.0.0.6'' \<in> set (strings_Split ''10.0.0.5\<newline>10.0.0.6'' CHR 0x0A)"
    by (simp add: strings_Split_def)
  have k: "2 < nat (metadataMaxRetryCount ?ok)" by (simp add: n_ok)
  from doesMACAddressMapToIPAddress_retries [OF pos_ok, of 2 ?mac ?sfx "[]" _ "''10.0.0.6''"] k ok_all ok2
  have a: "doesMACAddressMapToIPAddress ?ok ?mac ''10.0.0.6'' ?sfx [] =
        (Inr (''10.0.0.6'' \<in> set (strings_Split ''10.0.0.5\<newline>10.0.0.6'' CHR 0x0A)),
         [] @ queryRounds (addressesPath ?mac ?sfx) (metadataDurationBetweenRetries ?ok) 2
            @ [EvGetMetadata (addressesPath ?mac ?sfx)])"
    by blast
  note bad = doesMACAddressMapToIPAddress_retries [OF pos_bad, of _ ?mac ?sfx "[]" _ "''10.0.0.6''"
      "External ''refused''" "queryFailed (External ''refused'') (addressesPath ?mac ?sfx)"]
  from bad bad_all last_bad
  have b: "doesMACAddressMapToIPAddress ?bad ?mac ''10.0.0.6'' ?sfx [] =
        (Inl (queryFailed (External ''refused'') (addressesPath ?mac ?sfx)),
         [] @ queryRounds (addressesPath ?mac ?sfx) (metadataDurationBetweenRetries ?bad)
                (nat (metadataMaxRetryCount ?bad) - 1)
            @ [EvGetMetadata (addressesPath ?mac ?sfx)])"
    by blast
  then have "fst (doesMACAddressMapToIPAddress ?bad ?mac ''10.0.0.6'' ?sfx []) =
      Inl (queryFailed (External ''refused'') (addressesPath ?mac ?sfx))"
    by simp
  with bad have "\<forall>j < nat (metadataMaxRetryCount ?bad). failedAttempt ?bad (addressesPath ?mac ?sfx) [] j"
    by blast
  then have c: "failedAttempt ?bad ?path [] 2" by (simp add: n_bad path)
  have two: "nat (metadataMaxRetryCount ?bad) - 1 = 2" by (simp add: n_bad)
  from a b c mem show ?thesis
    unfolding two path d_ok d_bad r2 by simp
qed

subsection \<open>SetupContainerNamespace\<close>

text \<open>
  Claim C2. When the link and the namespace are found and the move of the link into the
  namespace fails, \<open>SetupContainerNamespace\<close> returns that error wrapped as a failed
  move, and its trace ends with the move: the closure is neither built nor run. When the
  move succeeds, the closure is built and its run in the namespace fails, the call
  returns that error wrapped as a failed run, and its trace ends with the run: the link
  has been moved once and nothing undoes the move.
\<close>

theorem SetupContainerNamespace_move_and_run_failures:
  assumes l: "LinkByName (netLink e) tr deviceName = Inr eniLink"
    and n: "GetNS (ns e) (tr @ [EvLinkByName deviceName]) (Netns args) = Inr containerNS"
  shows
    "(LinkSetNsFd (netLink e) (tr @ [EvLinkByName deviceName, EvGetNS (Netns args)])
         eniLink (sint (Fd containerNS)) = Some err \<longrightarrow>
        SetupContainerNamespace newCtx e args deviceName macAddress ipv4Address ipv6Address
            ipv4Gateway ipv6Gateway blockIMDS tr =
          (Some (moveFailed err deviceName (Netns args)),
           tr @ [EvLinkByName deviceName, EvGetNS (Netns args),
                 EvLinkSetNsFd eniLink (sint (Fd containerNS))])
        \<and> closureRuns (snd (SetupContainerNamespace newCtx e args deviceName macAddress ipv4Address
              ipv6Address ipv4Gateway ipv6Gateway blockIMDS tr)) = closureRuns tr)
   \<and> (LinkSetNsFd (netLink e) (tr @ [EvLinkByName deviceName, EvGetNS (Netns args)])
         eniLink (sint (Fd containerNS)) = None \<longrightarrow>
        newCtx (tr @ [EvLinkByName deviceName, EvGetNS (Netns args),
                      EvLinkSetNsFd eniLink (sint (Fd containerNS))])
          (IfName args) deviceName macAddress ipv4Address ipv6Address ipv4Gateway ipv6Gateway blockIMDS
          = Inr toRun \<longrightarrow>
        WithNetNSPath (ns e)
          (tr @ [EvLinkByName deviceName, EvGetNS (Netns args),
                 EvLinkSetNsFd eniLink (sint (Fd containerNS)),
                 EvNewSetupNamespaceClosureContext (IfName args) deviceName macAddress ipv4Address
                   ipv6Address ipv4Gateway ipv6Gateway blockIMDS])
          (Netns args) toRun = Some err \<longrightarrow>
        SetupContainerNamespace newCtx e args deviceName macAddress ipv4Address ipv6Address
            ipv4Gateway ipv6Gateway blockIMDS tr =
          (Some (executionFailed err deviceName (Netns args)),
           tr @ [EvLinkByName deviceName, EvGetNS (Netns args),
                 EvLinkSetNsFd eniLink (sint (Fd containerNS)),
                 EvNewSetupNamespaceClosureContext (IfName args) deviceName macAddress ipv4Address
                   ipv6Address ipv4Gateway ipv6Gateway blockIMDS,
                 EvWithNetNSPath (Netns args) toRun])
        \<and> linkMoves (snd (SetupContainerNamespace newCtx e args deviceName macAddress ipv4Address
              ipv6Address ipv4Gateway ipv6Gateway blockIMDS tr)) = Suc (linkMoves tr))"
proof (intro conjI impI)
  assume m: "LinkSetNsFd (netLink e) (tr @ [EvLinkByName deviceName, EvGetNS (Netns args)])
         eniLink (sint (Fd containerNS)) = Some err"
  show r: "SetupContainerNamespace newCtx e args deviceName macAddress ipv4Address ipv6Address
            ipv4Gateway ipv6Gateway blockIMDS tr =
          (Some (moveFailed err deviceName (Netns args)),
           tr @ [EvLinkByName deviceName, EvGetNS (Netns args),
                 EvLinkSetNsFd eniLink (sint (Fd containerNS))])"
    using l n m by (simp add: SetupContainerNamespace_def moveFailed_def)
  show "closureRuns (snd (SetupContainerNamespace newCtx e args deviceName macAddress ipv4Address
              ipv6Address ipv4Gateway ipv6Gateway blockIMDS tr)) = closureRuns tr"
    unfolding r by (simp add: closureRuns_def)
next
  assume m: "LinkSetNsFd (netLink e) (tr @ [EvLinkByName deviceName, EvGetNS (Netns args)])
         eniLink (sint (Fd containerNS)) = None"
    and c: "newCtx (tr @ [EvLinkByName deviceName, EvGetNS (Netns args),
                      EvLinkSetNsFd eniLink (sint (Fd containerNS))])
          (IfName args) deviceName macAddress ipv4Address ipv6Address ipv4Gateway ipv6Gateway blockIMDS
          = Inr toRun"
    and w: "WithNetNSPath (ns e)
          (tr @ [EvLinkByName deviceName, EvGetNS (Netns args),
                 EvLinkSetNsFd eniLink (sint (Fd containerNS)),
                 EvNewSetupNamespaceClosureContext (IfName args) deviceName macAddress ipv4Address
                   ipv6Address ipv4Gateway ipv6Gateway blockIMDS])
          (Netns args) toRun = Some err"
  show r: "SetupContainerNamespace newCtx e args deviceName macAddress ipv4Address ipv6Address
            ipv4Gateway ipv6Gateway blockIMDS tr =
          (Some (executionFailed err deviceName (Netns args)),
           tr @ [EvLinkByName deviceName, EvGetNS (Netns args),
                 EvLinkSetNsFd eniLink (sint (Fd containerNS)),
                 EvNewSetupNamespaceClosureContext (IfName args) deviceName macAddress ipv4Address
                   ipv6Address ipv4Gateway ipv6Gateway blockIMDS,
                 EvWithNetNSPath (Netns args) toRun])"
    using l n m c w by (simp add: SetupContainerNamespace_def executionFailed_def)
  show "linkMoves (snd (SetupContainerNamespace newCtx e args deviceName macAddress ipv4Address
              ipv6Address ipv4Gateway ipv6Gateway blockIMDS tr)) = Suc (linkMoves tr)"
    unfolding r by (simp add: linkMoves_def)
qed

theorem SetupContainerNamespace_move_and_run_failures_witness:
  "SetupContainerNamespace stubNewCtx moveFailingEngine containerArgs ''eth1'' ''0a:1b:2c:3d:4e:5f''
       ''10.0.0.5/24'' [] ''10.0.0.1'' [] True [] =
     (Some (moveFailed (External ''netlink: operation not permitted'') ''eth1'' ''/proc/42/ns/net''),
      [EvLinkByName ''eth1'', EvGetNS ''/proc/42/ns/net'', EvLinkSetNsFd (Link 2 ''eth1'') 7])
   \<and> closureRuns (snd (SetupContainerNamespace stubNewCtx moveFailingEngine containerArgs ''eth1''
         ''0a:1b:2c:3d:4e:5f'' ''10.0.0.5/24'' [] ''10.0.0.1'' [] True [])) = 0
   \<and> fst (SetupContainerNamespace stubNewCtx runFailingEngine containerArgs ''eth1'' ''0a:1b:2c:3d:4e:5f''
         ''10.0.0.5/24'' [] ''10.0.0.1'' [] True []) =
       Some (executionFailed (External ''closure: unable to add address'') ''eth1'' ''/proc/42/ns/net'')
   \<and> linkMoves (snd (SetupContainerNamespace stubNewCtx runFailingEngine containerArgs ''eth1''
         ''0a:1b:2c:3d:4e:5f'' ''10.0.0.5/24'' [] ''10.0.0.1'' [] True [])) = 1"
proof -
  let ?toRun = "\<lparr> ctx_ifName = ''eth0'', ctx_deviceName = ''eth1'', ctx_macAddress = ''0a:1b:2c:3d:4e:5f'',
       ctx_ipv4Address = ''10.0.0.5/24'', ctx_ipv6Address = [], ctx_ipv4Gateway = ''10.0.0.1'',
       ctx_ipv6Gateway = [], ctx_blockIMDS = True \<rparr>"
  have fd: "sint (Fd (NetNS 7 ''/proc/42/ns/net'')) = 7" by simp
  have na: "Netns containerArgs = ''/proc/42/ns/net''" and ia: "IfName containerArgs = ''eth0''"
    by (simp_all add: containerArgs_def)
  have l1: "LinkByName (netLink moveFailingEngine) [] ''eth1'' = Inr (Link 2 ''eth1'')"
    by (simp add: moveFailingEngine_def create_def scriptedNetLink_def)
  have n1: "GetNS (ns moveFailingEngine) ([] @ [EvLinkByName ''eth1'']) (Netns containerArgs)
              = Inr (NetNS 7 ''/proc/42/ns/net'')"
    by (simp add: moveFailingEngine_def create_def stubNS_def na)
  have m1: "LinkSetNsFd (netLink moveFailingEngine) ([] @ [EvLinkByName ''eth1'', EvGetNS (Netns containerArgs)])
              (Link 2 ''eth1'') (sint (Fd (NetNS 7 ''/proc/42/ns/net'')))
              = Some (External ''netlink: operation not permitted'')"
    by (simp add: moveFailingEngine_def create_def scriptedNetLink_def)
  have l2: "LinkByName (netLink runFailingEngine) [] ''eth1'' = Inr (Link 2 ''eth1'')"
    by (simp add: runFailingEngine_def create_def scriptedNetLink_def)
  have n2: "GetNS (ns runFailingEngine) ([] @ [EvLinkByName ''eth1'']) (Netns containerArgs)
              = Inr (NetNS 7 ''/proc/42/ns/net'')"
    by (simp add: runFailingEngine_def create_def stubNS_def na)
  have m2: "LinkSetNsFd (netLink runFailingEngine) ([] @ [EvLinkByName ''eth1'', EvGetNS (Netns containerArgs)])
              (Link 2 ''eth1'') (sint (Fd (NetNS 7 ''/proc/42/ns/net''))) = None"
    by (simp add: runFailingEngine_def create_def scriptedNetLink_def)
  have c2: "stubNewCtx ([] @ [EvLinkByName ''eth1'', EvGetNS (Netns containerArgs),
                EvLinkSetNsFd (Link 2 ''eth1'') (sint (Fd (NetNS 7 ''/proc/42/ns/net'')))])
              (IfName containerArgs) ''eth1'' ''0a:1b:2c:3d:4e:5f'' ''10.0.0.5/24'' [] ''10.0.0.1'' [] True
              = Inr ?toRun"
    by (simp add: stubNewCtx_def ia)
  have w2: "WithNetNSPath (ns runFailingEngine)
              ([] @ [EvLinkByName ''eth1'', EvGetNS (Netns containerArgs),
                     EvLinkSetNsFd (Link 2 ''eth1'') (sint (Fd (NetNS 7 ''/proc/42/ns/net''))),
                     EvNewSetupNamespaceClosureContext (IfName containerArgs) ''eth1'' ''0a:1b:2c:3d:4e:5f''
                       ''10.0.0.5/24'' [] ''10.0.0.1'' [] True])
              (Netns containerArgs) ?toRun = Some (External ''closure: unable to add address'')"
    by (simp add: runFailingEngine_def create_def stubNS_def)
  from SetupContainerNamespace_move_and_run_failures [OF l1 n1, of "External ''netlink: operation not permitted''"
         stubNewCtx "''0a:1b:2c:3d:4e:5f''" "''10.0.0.5/24''" "[]" "''10.0.0.1''" "[]" True] m1
  have a: "SetupContainerNamespace stubNewCtx moveFailingEngine containerArgs ''eth1'' ''0a:1b:2c:3d:4e:5f''
       ''10.0.0.5/24'' [] ''10.0.0.1'' [] True [] =
     (Some (moveFailed (External ''netlink: operation not permitted'') ''eth1'' (Netns containerArgs)),
      [] @ [EvLinkByName ''eth1'', EvGetNS (Netns containerArgs),
            EvLinkSetNsFd (Link 2 ''eth1'') (sint (Fd (NetNS 7 ''/proc/42/ns/net'')))])
     \<and> closureRuns (snd (SetupContainerNamespace stubNewCtx moveFailingEngine containerArgs ''eth1''
         ''0a:1b:2c:3d:4e:5f'' ''10.0.0.5/24'' [] ''10.0.0.1'' [] True [])) = closureRuns []"
    by blast
  from SetupContainerNamespace_move_and_run_failures [OF l2 n2, of "External ''closure: unable to add address''"
         stubNewCtx "''0a:1b:2c:3d:4e:5f''" "''10.0.0.5/24''" "[]" "''10.0.0.1''" "[]" True ?toRun] m2 c2 w2
  have b: "SetupContainerNamespace stubNewCtx runFailingEngine containerArgs ''eth1'' ''0a:1b:2c:3d:4e:5f''
       ''10.0.0.5/24'' [] ''10.0.0.1'' [] True [] =
     (Some (executionFailed (External ''closure: unable to add address'') ''eth1'' (Netns containerArgs)),
      [] @ [EvLinkByName ''eth1'', EvGetNS (Netns containerArgs),
            EvLinkSetNsFd (Link 2 ''eth1'') (sint (Fd (NetNS 7 ''/proc/42/ns/net''))),
            EvNewSetupNamespaceClosureContext (IfName containerArgs) ''eth1'' ''0a:1b:2c:3d:4e:5f''
              ''10.0.0.5/24'' [] ''10.0.0.1'' [] True,
            EvWithNetNSPath (Netns containerArgs) ?toRun])
     \<and> linkMoves (snd (SetupContainerNamespace stubNewCtx runFailingEngine containerArgs ''eth1''
         ''0a:1b:2c:3d:4e:5f'' ''10.0.0.5/24'' [] ''10.0.0.1'' [] True [])) = Suc (linkMoves [])"
    by blast
  from a b show ?thesis
    by (simp add: na fd closureRuns_def linkMoves_def)
qed

subsection \<open>The prefix length\<close>












lemma Addr_BitLen_le: "Addr_BitLen a \<le> 128"
  by (cases a) simp_all




























end
